theory Spec2Isabelle
  imports Main "HOL-Library.Word" "HOL-Library.Monad_Syntax"
begin

section \<open>Execution model\<close>

text \<open>
  The embedded functions are the methods of \<^verbatim>\<open>GeoNodeExecParams\<close> (the execution parameters
  of a geometry node) and the UV-sphere primitive node, node_geo_mesh_primitive_uv_sphere.cc.

  A function of the source that can stop the evaluation (a failed \<^verbatim>\<open>BLI_assert\<close>, an index
  outside a span) returns an \<open>option\<close>: \<open>None\<close> is the halted evaluation, \<open>Some x\<close> is the
  normal return of \<open>x\<close>.  A value of the C type \<^verbatim>\<open>int\<close> is an \<open>int\<close> of the 32-bit range,
  and every arithmetic operation of the source on \<^verbatim>\<open>int\<close> operands wraps around
  (\<open>int32\<close> below).  A \<^verbatim>\<open>float\<close> that the source only stores is embedded as its IEEE-754
  binary32 bit pattern or as the expression that computes it, uninterpreted; a \<^verbatim>\<open>float\<close>
  that holds a count is embedded as the integer it holds, with the rounding of the
  conversion written out (\<open>float_round\<close> below).
\<close>

datatype build_type = Debug | Release

text \<open>
  The result of an \<^verbatim>\<open>int\<close> operation whose exact value is \<open>x\<close>: the value of the same
  residue modulo \<open>2 ^ 32\<close> in the range from \<open>- (2 ^ 31)\<close> to \<open>2 ^ 31 - 1\<close>.  (Signed overflow
  is undefined in C; the compiled code wraps.)
\<close>

definition int32 :: "int \<Rightarrow> int" where
  "int32 x = (x + 2 ^ 31) mod 2 ^ 32 - 2 ^ 31"

text \<open>The operator \<^verbatim>\<open>%\<close> on \<^verbatim>\<open>int\<close>: the remainder of the division that truncates.\<close>

definition int_rem :: "int \<Rightarrow> int \<Rightarrow> int" where
  "int_rem a b = sgn a * (\<bar>a\<bar> mod \<bar>b\<bar>)"

text \<open>
  The conversion of an integer to \<^verbatim>\<open>float\<close>, and the result of a \<^verbatim>\<open>float\<close> operation whose
  exact value is the integer \<open>x\<close>: the nearest integer with a significand of 24 bits, a tie
  going to the even significand.  \<open>float_ulp x\<close> is the distance between the neighbouring
  values of that precision (for magnitudes up to \<open>2 ^ 32\<close>).
\<close>

definition float_ulp :: "int \<Rightarrow> int" where
  "float_ulp x =
     (if \<bar>x\<bar> < 2 ^ 24 then 1 else if \<bar>x\<bar> < 2 ^ 25 then 2 else if \<bar>x\<bar> < 2 ^ 26 then 4
      else if \<bar>x\<bar> < 2 ^ 27 then 8 else if \<bar>x\<bar> < 2 ^ 28 then 16 else if \<bar>x\<bar> < 2 ^ 29 then 32
      else if \<bar>x\<bar> < 2 ^ 30 then 64 else if \<bar>x\<bar> < 2 ^ 31 then 128 else 256)"

definition float_round :: "int \<Rightarrow> int" where
  "float_round x =
     (let u = float_ulp x; q = x div u; r = x mod u
      in if 2 * r < u then q * u
         else if u < 2 * r then (q + 1) * u
         else if even q then q * u else (q + 1) * u)"

type_synonym float = "32 word"

text \<open>
  Modelled from the spec: \<^verbatim>\<open>BLI_assert\<close> and \<^verbatim>\<open>BLI_assert_unreachable\<close> (BLI_assert.h is not
  part of the sources).  The spec describes a contract violation as one that "must halt/assert
  in a debug build"; in a release build the macro expands to nothing and the code after it runs.
\<close>

definition BLI_assert :: "build_type \<Rightarrow> bool \<Rightarrow> unit option" where
  "BLI_assert build cond = (if build = Debug \<and> \<not> cond then None else Some ())"

definition BLI_assert_unreachable :: "build_type \<Rightarrow> unit option" where
  "BLI_assert_unreachable build = BLI_assert build False"

text \<open>A range-based \<^verbatim>\<open>for\<close> loop over a list of indices, threading the mutable locals.\<close>

primrec for_each :: "'i list \<Rightarrow> ('i \<Rightarrow> 's \<Rightarrow> 's option) \<Rightarrow> 's \<Rightarrow> 's option" where
  "for_each [] body s = Some s"
| "for_each (i # is) body s = body i s \<bind> for_each is body"

text \<open>
  \<^verbatim>\<open>for (const int i : IndexRange(start, size))\<close>.  The constructor of \<^verbatim>\<open>IndexRange\<close>
  asserts that start and size are not negative; a range that violates this has no defined
  iteration and halts the model.
\<close>

definition for_range :: "int \<Rightarrow> int \<Rightarrow> (int \<Rightarrow> 's \<Rightarrow> 's option) \<Rightarrow> 's \<Rightarrow> 's option" where
  "for_range start len body s =
     (if start < 0 \<or> len < 0 then None else for_each [start..start + len - 1] body s)"

text \<open>
  \<^verbatim>\<open>span[index] = value\<close> on a \<^verbatim>\<open>MutableSpan\<close>.  The index has to lie inside the span: the
  access asserts it in a debug build and is undefined otherwise, so that a write outside
  the span halts the model.
\<close>

definition span_set :: "'a list \<Rightarrow> int \<Rightarrow> 'a \<Rightarrow> 'a list option" where
  "span_set span index v =
     (if 0 \<le> index \<and> index < int (length span) then Some (span[nat index := v]) else None)"

text \<open>\<^verbatim>\<open>span[index++] = value\<close>, the state being the span and the running index.\<close>

definition span_push :: "'a list \<times> int \<Rightarrow> 'a \<Rightarrow> ('a list \<times> int) option" where
  "span_push st x = (case st of (span, index) \<Rightarrow> do {
     span \<leftarrow> span_set span index x;
     Some (span, int32 (index + 1))
   })"

text \<open>
  Predicates for stating what a call returns: \<open>returns m Q\<close> says that \<open>m\<close> does not halt and
  that its result satisfies \<open>Q\<close>; \<open>at_index n j\<close> describes a span of \<open>n\<close> elements, a number
  that an \<^verbatim>\<open>int\<close> holds, with the running index at \<open>j\<close>.
\<close>

definition returns :: "'a option \<Rightarrow> ('a \<Rightarrow> bool) \<Rightarrow> bool" where
  "returns m Q = (case m of None \<Rightarrow> False | Some a \<Rightarrow> Q a)"

definition at_index :: "nat \<Rightarrow> int \<Rightarrow> 'a list \<times> int \<Rightarrow> bool" where
  "at_index n j st = (length (fst st) = n \<and> int n < 2 ^ 31 \<and> snd st = j)"

section \<open>The UV-sphere primitive\<close>

subsection \<open>Mesh data\<close>

text \<open>
  Single-precision expressions, uninterpreted.  \<open>Const\<close> is a literal or an input value given
  by its bit pattern, \<open>Of_int\<close> the conversion of an \<^verbatim>\<open>int\<close>, \<open>Pi\<close> the constant \<^verbatim>\<open>M_PI\<close>.
\<close>

datatype fexpr =
    Const float
  | Of_int int
  | Pi
  | Add fexpr fexpr
  | Sub fexpr fexpr
  | Mul fexpr fexpr
  | Div fexpr fexpr
  | Neg fexpr
  | Cos fexpr
  | Sin fexpr

definition f_0 :: fexpr where "f_0 = Const 0"
definition f_half :: fexpr where "f_half = Const 0x3F000000"
definition f_1 :: fexpr where "f_1 = Const 0x3F800000"
definition f_2 :: fexpr where "f_2 = Const 0x40000000"
definition f_minus_1 :: fexpr where "f_minus_1 = Const 0xBF800000"

type_synonym float2 = "fexpr \<times> fexpr"
type_synonym float3 = "fexpr \<times> fexpr \<times> fexpr"

definition float3_scale :: "float3 \<Rightarrow> fexpr \<Rightarrow> float3" where
  "float3_scale a s = (case a of (x, y, z) \<Rightarrow> (Mul x s, Mul y s, Mul z s))"

text \<open>
  \<open>co\<close> is the position; \<open>no\<close> holds the unit vector that \<^verbatim>\<open>normal_float_to_short_v3\<close>
  packs into three shorts.
\<close>

record MVert =
  co :: float3
  no :: float3

datatype edge_flag = ME_EDGEDRAW | ME_EDGERENDER

record MEdge =
  v1 :: int
  v2 :: int
  flag :: "edge_flag set"

record MLoop =
  v :: int
  e :: int

record MPoly =
  loopstart :: int
  totloop :: int

record Mesh =
  totvert :: int
  totedge :: int
  totloop_mesh :: int
  totpoly :: int
  mvert :: "MVert list"
  medge :: "MEdge list"
  mloop :: "MLoop list"
  mpoly :: "MPoly list"
  uv_map :: "float2 list option"
  default_material_slot :: bool

text \<open>
  Modelled from the spec: \<^verbatim>\<open>BKE_mesh_new_nomain\<close> (BKE_mesh.h is not part of the sources)
  "allocates topology arrays at those exact sizes"; the arrays are zero-initialised.
  The field \<^verbatim>\<open>totloop\<close> of the mesh is named \<open>totloop_mesh\<close> here, \<open>totloop\<close> being the
  field of \<open>MPoly\<close>.
\<close>

definition BKE_mesh_new_nomain :: "int \<Rightarrow> int \<Rightarrow> int \<Rightarrow> int \<Rightarrow> int \<Rightarrow> Mesh" where
  "BKE_mesh_new_nomain verts_len edges_len tessface_len loops_len polys_len =
     \<lparr> totvert = verts_len, totedge = edges_len, totloop_mesh = loops_len, totpoly = polys_len,
       mvert = replicate (nat verts_len) \<lparr> co = (f_0, f_0, f_0), no = (f_0, f_0, f_0) \<rparr>,
       medge = replicate (nat edges_len) \<lparr> v1 = 0, v2 = 0, flag = {} \<rparr>,
       mloop = replicate (nat loops_len) \<lparr> v = 0, e = 0 \<rparr>,
       mpoly = replicate (nat polys_len) \<lparr> loopstart = 0, totloop = 0 \<rparr>,
       uv_map = None, default_material_slot = False \<rparr>"

subsection \<open>Element totals\<close>

definition sphere_vert_total :: "int \<Rightarrow> int \<Rightarrow> int" where
  "sphere_vert_total segments rings = int32 (int32 (segments * int32 (rings - 1)) + 2)"

definition sphere_edge_total :: "int \<Rightarrow> int \<Rightarrow> int" where
  "sphere_edge_total segments rings = int32 (segments * int32 (int32 (rings * 2) - 1))"

definition sphere_corner_total :: "int \<Rightarrow> int \<Rightarrow> int" where
  "sphere_corner_total segments rings =
     (let quad_corners = int32 (int32 (4 * segments) * int32 (rings - 2));
          tri_corners = int32 (int32 (3 * segments) * 2)
      in int32 (quad_corners + tri_corners))"

definition sphere_face_total :: "int \<Rightarrow> int \<Rightarrow> int" where
  "sphere_face_total segments rings =
     (let quads = int32 (segments * int32 (rings - 2));
          triangles = int32 (segments * 2)
      in int32 (quads + triangles))"

subsection \<open>The four passes\<close>

text \<open>
  Each pass writes through a running index (\<^verbatim>\<open>span[index++] = ...\<close>); the index is part of
  the loop state.
\<close>

definition calculate_sphere_vertex_data ::
  "MVert list \<Rightarrow> float \<Rightarrow> int \<Rightarrow> int \<Rightarrow> MVert list option" where
  "calculate_sphere_vertex_data verts radius segments rings = do {
     let delta_theta = Div Pi (Of_int rings);
     let delta_phi = Div (Mul f_2 Pi) (Of_int segments);
     verts \<leftarrow> span_set verts 0 \<lparr> co = (f_0, f_0, Const radius), no = (f_0, f_0, f_1) \<rparr>;
     (verts, vert_index) \<leftarrow>
       for_range 1 (int32 (rings - 1)) (\<lambda>ring. do {
         let theta = Mul (Of_int ring) delta_theta;
         let z = Cos theta;
         for_range 1 segments (\<lambda>segment st. do {
           let phi = Mul (Of_int segment) delta_phi;
           let sin_theta = Sin theta;
           let x = Mul sin_theta (Cos phi);
           let y = Mul sin_theta (Sin phi);
           span_push st \<lparr> co = float3_scale (x, y, z) (Const radius), no = (x, y, z) \<rparr>
         })
       }) (verts, 1);
     span_set verts (int (length verts) - 1)
       \<lparr> co = (f_0, f_0, Neg (Const radius)), no = (f_0, f_0, f_minus_1) \<rparr>
   }"

definition set_edge :: "MEdge list \<times> int \<Rightarrow> int \<Rightarrow> int \<Rightarrow> (MEdge list \<times> int) option" where
  "set_edge st a b = span_push st \<lparr> v1 = a, v2 = b, flag = {ME_EDGEDRAW, ME_EDGERENDER} \<rparr>"

definition calculate_sphere_edge_indices :: "MEdge list \<Rightarrow> int \<Rightarrow> int \<Rightarrow> MEdge list option" where
  "calculate_sphere_edge_indices edges segments rings = do {
     let first_vert_ring_index_start = 1;
     st \<leftarrow> for_range 0 segments (\<lambda>segment st.
             set_edge st 0 (int32 (first_vert_ring_index_start + segment))) (edges, 0);
     (st, ring_vert_index_start) \<leftarrow>
       for_range 0 (int32 (rings - 1)) (\<lambda>ring (st, ring_vert_index_start). do {
         let next_ring_vert_index_start = int32 (ring_vert_index_start + segments);
         st \<leftarrow> for_range 0 segments (\<lambda>segment st.
                 set_edge st (int32 (ring_vert_index_start + segment))
                             (int32 (ring_vert_index_start
                                       + int_rem (int32 (segment + 1)) segments))) st;
         st \<leftarrow> (if ring < int32 (rings - 2)
                then for_range 0 segments (\<lambda>segment st.
                       set_edge st (int32 (ring_vert_index_start + segment))
                                   (int32 (next_ring_vert_index_start + segment))) st
                else Some st);
         Some (st, int32 (ring_vert_index_start + segments))
       }) (st, 1);
     let last_vert_index = int32 (sphere_vert_total segments rings - 1);
     let last_vert_ring_start = int32 (last_vert_index - segments);
     (edges, edge_index) \<leftarrow> for_range 0 segments (\<lambda>segment st.
             set_edge st last_vert_index (int32 (last_vert_ring_start + segment))) st;
     Some edges
   }"

text \<open>
  The locals of \<^verbatim>\<open>calculate_sphere_faces\<close> that the loops change: the two spans and their
  running indices, as \<open>(loops, polys, loop_index, poly_index)\<close>.
\<close>

type_synonym face_state = "MLoop list \<times> MPoly list \<times> int \<times> int"

definition begin_poly :: "face_state \<Rightarrow> int \<Rightarrow> face_state option" where
  "begin_poly st n = (case st of (loops, polys, loop_index, poly_index) \<Rightarrow> do {
     polys \<leftarrow> span_set polys poly_index \<lparr> loopstart = loop_index, totloop = n \<rparr>;
     Some (loops, polys, loop_index, int32 (poly_index + 1))
   })"

definition add_loop :: "face_state \<Rightarrow> int \<Rightarrow> int \<Rightarrow> face_state option" where
  "add_loop st vert edge = (case st of (loops, polys, loop_index, poly_index) \<Rightarrow> do {
     loops \<leftarrow> span_set loops loop_index \<lparr> v = vert, e = edge \<rparr>;
     Some (loops, polys, int32 (loop_index + 1), poly_index)
   })"

definition face_at :: "nat \<Rightarrow> nat \<Rightarrow> int \<Rightarrow> int \<Rightarrow> face_state \<Rightarrow> bool" where
  "face_at nl np li pi st = (case st of (loops, polys, loop_index, poly_index) \<Rightarrow>
     length loops = nl \<and> length polys = np \<and> int nl < 2 ^ 31 \<and> int np < 2 ^ 31
     \<and> loop_index = li \<and> poly_index = pi)"

definition calculate_sphere_faces ::
  "MLoop list \<Rightarrow> MPoly list \<Rightarrow> int \<Rightarrow> int \<Rightarrow> (MLoop list \<times> MPoly list) option" where
  "calculate_sphere_faces loops polys segments rings = do {
     let first_vert_ring_index_start = 1;
     st \<leftarrow> for_range 0 segments (\<lambda>segment st. do {
             st \<leftarrow> begin_poly st 3;
             st \<leftarrow> add_loop st 0 segment;
             st \<leftarrow> add_loop st (int32 (first_vert_ring_index_start + segment))
                               (int32 (segments + segment));
             add_loop st (int32 (first_vert_ring_index_start
                                   + int_rem (int32 (segment + 1)) segments))
                         (int_rem (int32 (segment + 1)) segments)
           }) (loops, polys, 0, 0);
     (st, ring_vert_index_start, ring_edge_index_start) \<leftarrow>
       for_range 1 (int32 (rings - 2))
         (\<lambda>ring (st, ring_vert_index_start, ring_edge_index_start). do {
         let next_ring_vert_index_start = int32 (ring_vert_index_start + segments);
         let next_ring_edge_index_start = int32 (ring_edge_index_start + int32 (segments * 2));
         let ring_vertical_edge_index_start = int32 (ring_edge_index_start + segments);
         st \<leftarrow> for_range 0 segments (\<lambda>segment st. do {
                 st \<leftarrow> begin_poly st 4;
                 st \<leftarrow> add_loop st (int32 (ring_vert_index_start + segment))
                                   (int32 (ring_vertical_edge_index_start + segment));
                 st \<leftarrow> add_loop st (int32 (next_ring_vert_index_start + segment))
                                   (int32 (next_ring_edge_index_start + segment));
                 st \<leftarrow> add_loop st (int32 (next_ring_vert_index_start
                                             + int_rem (int32 (segment + 1)) segments))
                                   (int32 (ring_vertical_edge_index_start
                                             + int_rem (int32 (segment + 1)) segments));
                 add_loop st (int32 (ring_vert_index_start
                                       + int_rem (int32 (segment + 1)) segments))
                             (int32 (ring_edge_index_start + segment))
               }) st;
         Some (st, int32 (ring_vert_index_start + segments),
               int32 (ring_edge_index_start + int32 (segments * 2)))
       }) (st, 1, segments);
     let last_edge_ring_start =
           int32 (int32 (int32 (segments * int32 (rings - 2)) * 2) + segments);
     let bottom_edge_fan_start = int32 (last_edge_ring_start + segments);
     let last_vert_index = int32 (sphere_vert_total segments rings - 1);
     let last_vert_ring_start = int32 (last_vert_index - segments);
     (loops, polys, loop_index, poly_index) \<leftarrow> for_range 0 segments (\<lambda>segment st. do {
             st \<leftarrow> begin_poly st 3;
             st \<leftarrow> add_loop st last_vert_index
                               (int32 (bottom_edge_fan_start
                                         + int_rem (int32 (segment + 1)) segments));
             st \<leftarrow> add_loop st (int32 (last_vert_ring_start
                                         + int_rem (int32 (segment + 1)) segments))
                               (int32 (last_edge_ring_start + segment));
             add_loop st (int32 (last_vert_ring_start + segment))
                         (int32 (bottom_edge_fan_start + segment))
           }) st;
     Some (loops, polys)
   }"

text \<open>
  Modelled from the spec: \<^verbatim>\<open>attribute_try_get_for_output_only\<close> (not part of the sources),
  called for the attribute \<^verbatim>\<open>"uv_map"\<close> on the corner domain of the mesh.  It creates "the
  backing array sized to the domain's element count", which for the corner domain is the
  number of loops of the mesh.
\<close>

definition attribute_try_get_for_output_only_corner :: "Mesh \<Rightarrow> float2 list" where
  "attribute_try_get_for_output_only_corner mesh = replicate (nat (totloop_mesh mesh)) (f_0, f_0)"

text \<open>
  The parameters \<^verbatim>\<open>segments\<close> and \<^verbatim>\<open>rings\<close> of \<^verbatim>\<open>calculate_sphere_uvs\<close> have the type
  \<^verbatim>\<open>float\<close>; they hold integers, which is what the model passes.  \<^verbatim>\<open>IndexRange(segments)\<close>
  converts the \<^verbatim>\<open>float\<close> to a 64-bit integer, and \<^verbatim>\<open>rings - 2\<close> is a \<^verbatim>\<open>float\<close> subtraction.
\<close>

definition calculate_sphere_uvs :: "Mesh \<Rightarrow> int \<Rightarrow> int \<Rightarrow> Mesh option" where
  "calculate_sphere_uvs mesh segments rings = do {
     let uvs = attribute_try_get_for_output_only_corner mesh;
     let fsegments = Of_int segments;
     let frings = Of_int rings;
     let dy = Div f_1 frings;
     st \<leftarrow> for_range 0 segments (\<lambda>i_segment st. do {
             let segment = Of_int i_segment;
             st \<leftarrow> span_push st (Div (Add segment f_half) fsegments, f_0);
             st \<leftarrow> span_push st (Div segment fsegments, dy);
             span_push st (Div (Add segment f_1) fsegments, dy)
           }) (uvs, 0);
     st \<leftarrow> for_range 1 (float_round (rings - 2)) (\<lambda>i_ring st. do {
             let ring = Of_int i_ring;
             for_range 0 segments (\<lambda>i_segment st. do {
               let segment = Of_int i_segment;
               st \<leftarrow> span_push st (Div segment fsegments, Div ring frings);
               st \<leftarrow> span_push st (Div segment fsegments, Div (Add ring f_1) frings);
               st \<leftarrow> span_push st (Div (Add segment f_1) fsegments, Div (Add ring f_1) frings);
               span_push st (Div (Add segment f_1) fsegments, Div ring frings)
             }) st
           }) st;
     (uvs, loop_index) \<leftarrow> for_range 0 segments (\<lambda>i_segment st. do {
             let segment = Of_int i_segment;
             st \<leftarrow> span_push st (Div (Add segment f_half) fsegments, f_1);
             st \<leftarrow> span_push st (Div (Add segment f_1) fsegments, Sub f_1 dy);
             span_push st (Div segment fsegments, Sub f_1 dy)
           }) st;
     Some (mesh\<lparr> uv_map := Some uvs \<rparr>)
   }"

subsection \<open>The builder\<close>

text \<open>
  \<^verbatim>\<open>BKE_mesh_is_valid\<close> is not part of the sources and is a parameter.  It is only evaluated
  inside a \<^verbatim>\<open>BLI_assert\<close>.  The call of \<^verbatim>\<open>calculate_sphere_uvs\<close> converts the two \<^verbatim>\<open>int\<close>
  counts to \<^verbatim>\<open>float\<close>.
\<close>

definition create_uv_sphere_mesh ::
  "build_type \<Rightarrow> (Mesh \<Rightarrow> bool) \<Rightarrow> float \<Rightarrow> int \<Rightarrow> int \<Rightarrow> Mesh option" where
  "create_uv_sphere_mesh build BKE_mesh_is_valid radius segments rings = do {
     let mesh = BKE_mesh_new_nomain (sphere_vert_total segments rings)
                                    (sphere_edge_total segments rings)
                                    0
                                    (sphere_corner_total segments rings)
                                    (sphere_face_total segments rings);
     let mesh = mesh\<lparr> default_material_slot := True \<rparr>;
     verts \<leftarrow> calculate_sphere_vertex_data (mvert mesh) radius segments rings;
     let mesh = mesh\<lparr> mvert := verts \<rparr>;
     edges \<leftarrow> calculate_sphere_edge_indices (medge mesh) segments rings;
     let mesh = mesh\<lparr> medge := edges \<rparr>;
     (loops, polys) \<leftarrow> calculate_sphere_faces (mloop mesh) (mpoly mesh) segments rings;
     let mesh = mesh\<lparr> mloop := loops, mpoly := polys \<rparr>;
     mesh \<leftarrow> calculate_sphere_uvs mesh (float_round segments) (float_round rings);
     _ \<leftarrow> BLI_assert build (BKE_mesh_is_valid mesh);
     Some mesh
   }"

section \<open>Node sockets, values and geometry\<close>

text \<open>
  Modelled from the spec: the enumerations and the run-time types, whose declarations are not
  part of the sources.  The spec (sections 3 and 9) gives a closed set of value types, of
  attribute domains and of geometry component types; the members keep the names that the
  sources use for them.
\<close>

datatype eNodeSocketDatatype =
    SOCK_FLOAT | SOCK_VECTOR | SOCK_RGBA | SOCK_BOOLEAN | SOCK_INT | SOCK_STRING | SOCK_GEOMETRY

datatype eNodeSocketFlag = SOCK_UNAVAIL

datatype CustomDataType =
    CD_PROP_FLOAT | CD_PROP_INT32 | CD_PROP_FLOAT3 | CD_PROP_COLOR | CD_PROP_BOOL

datatype AttributeDomain =
    ATTR_DOMAIN_POINT | ATTR_DOMAIN_EDGE | ATTR_DOMAIN_CORNER | ATTR_DOMAIN_FACE
  | ATTR_DOMAIN_CURVE | ATTR_DOMAIN_INSTANCE

datatype GeometryComponentType =
    GEO_COMPONENT_TYPE_MESH | GEO_COMPONENT_TYPE_POINT_CLOUD | GEO_COMPONENT_TYPE_INSTANCES
  | GEO_COMPONENT_TYPE_VOLUME | GEO_COMPONENT_TYPE_CURVE

datatype NodeWarningType = Error | Warning | Info

datatype CPPType =
    CPP_float | CPP_int | CPP_float3 | CPP_ColorGeometry4f | CPP_bool | CPP_string
  | CPP_GeometrySet

text \<open>
  Modelled from the spec: the geometry set, "at most one component per type".  Only the mesh
  component carries data that the sources read or write.
\<close>

datatype geometry_component =
    MeshComponent Mesh
  | PointCloudComponent
  | InstancesComponent
  | VolumeComponent
  | CurveComponent

datatype GeometrySet = GeometrySet (components: "geometry_component list")

fun component_type :: "geometry_component \<Rightarrow> GeometryComponentType" where
  "component_type (MeshComponent _) = GEO_COMPONENT_TYPE_MESH"
| "component_type PointCloudComponent = GEO_COMPONENT_TYPE_POINT_CLOUD"
| "component_type InstancesComponent = GEO_COMPONENT_TYPE_INSTANCES"
| "component_type VolumeComponent = GEO_COMPONENT_TYPE_VOLUME"
| "component_type CurveComponent = GEO_COMPONENT_TYPE_CURVE"

text \<open>
  Modelled from the spec: \<^verbatim>\<open>has_instances\<close> and \<^verbatim>\<open>has_realized_data\<close>, "realized meaning
  any component other than Instances", and \<^verbatim>\<open>create_with_mesh\<close>, "wrapping a single owned
  mesh component".
\<close>

definition has_instances :: "GeometrySet \<Rightarrow> bool" where
  "has_instances geometry_set =
     list_ex (\<lambda>c. component_type c = GEO_COMPONENT_TYPE_INSTANCES) (components geometry_set)"

definition has_realized_data :: "GeometrySet \<Rightarrow> bool" where
  "has_realized_data geometry_set =
     list_ex (\<lambda>c. component_type c \<noteq> GEO_COMPONENT_TYPE_INSTANCES) (components geometry_set)"

definition create_with_mesh :: "Mesh \<Rightarrow> GeometrySet" where
  "create_with_mesh mesh = GeometrySet [MeshComponent mesh]"

text \<open>A value together with its run-time type (\<^verbatim>\<open>GPointer\<close>, \<^verbatim>\<open>GMutablePointer\<close>).\<close>

datatype GValue =
    V_float float
  | V_int int
  | V_float3 float float float
  | V_color float float float float
  | V_bool bool
  | V_string string
  | V_geometry GeometrySet

fun type_of_value :: "GValue \<Rightarrow> CPPType" where
  "type_of_value (V_float _) = CPP_float"
| "type_of_value (V_int _) = CPP_int"
| "type_of_value (V_float3 _ _ _) = CPP_float3"
| "type_of_value (V_color _ _ _ _) = CPP_ColorGeometry4f"
| "type_of_value (V_bool _) = CPP_bool"
| "type_of_value (V_string _) = CPP_string"
| "type_of_value (V_geometry _) = CPP_GeometrySet"

text \<open>
  Modelled from the spec: \<^verbatim>\<open>CPPType::default_value\<close> (FN_cpp_type.hh is not part of the
  sources).  The spec calls the value that \<^verbatim>\<open>get_input_attribute\<close> falls back to when no
  default is given "the type's zero value", and the buffer that a run-time type produces
  "zero-initialized": the number zero (for a \<^verbatim>\<open>float\<close> the bit pattern of \<open>+0.0\<close>), the
  vector and the color of zeros, \<^verbatim>\<open>false\<close>, the empty string and the empty geometry set.
\<close>

fun CPPType_default_value :: "CPPType \<Rightarrow> GValue" where
  "CPPType_default_value CPP_float = V_float 0"
| "CPPType_default_value CPP_int = V_int 0"
| "CPPType_default_value CPP_float3 = V_float3 0 0 0"
| "CPPType_default_value CPP_ColorGeometry4f = V_color 0 0 0 0"
| "CPPType_default_value CPP_bool = V_bool False"
| "CPPType_default_value CPP_string = V_string []"
| "CPPType_default_value CPP_GeometrySet = V_geometry (GeometrySet [])"

text \<open>
  Modelled from the spec: the virtual array.  A single-value broadcast view "reports a fixed
  domain size but returns the same underlying value for every index"; the other views are
  the arrays that a component stores.
\<close>

datatype GVArray =
    GVArray_For_SingleValue CPPType int GValue
  | GVArray_For_Span CPPType "GValue list"

fun gvarray_size :: "GVArray \<Rightarrow> int" where
  "gvarray_size (GVArray_For_SingleValue _ n _) = n"
| "gvarray_size (GVArray_For_Span _ xs) = int (length xs)"

fun gvarray_get :: "GVArray \<Rightarrow> int \<Rightarrow> GValue option" where
  "gvarray_get (GVArray_For_SingleValue _ n x) index =
     (if 0 \<le> index \<and> index < n then Some x else None)"
| "gvarray_get (GVArray_For_Span _ xs) index =
     (if 0 \<le> index \<and> index < int (length xs) then Some (xs ! nat index) else None)"

record AttributeMetaData =
  md_domain :: AttributeDomain
  md_data_type :: CustomDataType

text \<open>
  \<^verbatim>\<open>GeometryComponent\<close> is an abstract class; its attribute interface is a record of the
  three methods that the sources call.
\<close>

record GeometryComponent =
  attribute_domain_size :: "AttributeDomain \<Rightarrow> int"
  attribute_try_get_for_read :: "string \<Rightarrow> AttributeDomain \<Rightarrow> CustomDataType \<Rightarrow> GVArray option"
  attribute_get_meta_data :: "string \<Rightarrow> AttributeMetaData option"

subsection \<open>Socket declarations\<close>

text \<open>
  What the declaration builder records for a socket.  A bound that the builder call chain
  does not set is \<open>None\<close>.
\<close>

datatype PropertySubType = PROP_NONE | PROP_DISTANCE

datatype decl_kind =
    decl_Float float "float option" "float option" PropertySubType
  | decl_Int int "int option" "int option"
  | decl_Vector
  | decl_Color
  | decl_Bool
  | decl_String
  | decl_Geometry bool bool "GeometryComponentType list"

record SocketDeclaration =
  decl_name :: string
  decl_description :: string
  kind :: decl_kind

fun only_realized_data :: "decl_kind \<Rightarrow> bool" where
  "only_realized_data (decl_Geometry r i ts) = r"
| "only_realized_data _ = False"

fun only_instances :: "decl_kind \<Rightarrow> bool" where
  "only_instances (decl_Geometry r i ts) = i"
| "only_instances _ = False"

fun supported_types :: "decl_kind \<Rightarrow> GeometryComponentType list" where
  "supported_types (decl_Geometry r i ts) = ts"
| "supported_types _ = []"

fun is_decl_Geometry :: "decl_kind \<Rightarrow> bool" where
  "is_decl_Geometry (decl_Geometry r i ts) = True"
| "is_decl_Geometry _ = False"

record NodeDeclaration =
  decl_inputs :: "SocketDeclaration list"
  decl_outputs :: "SocketDeclaration list"

subsection \<open>Nodes and the parameter provider\<close>

text \<open>
  A socket of a node as the sources read it: \<open>sock_cpp_type\<close> is
  \<^verbatim>\<open>typeinfo->get_geometry_nodes_cpp_type()\<close>.  \<^verbatim>\<open>InputSocketRef\<close> and \<^verbatim>\<open>OutputSocketRef\<close> are
  views of the same socket.
\<close>

record bNodeSocket =
  sock_identifier :: string
  sock_name :: string
  sock_type :: eNodeSocketDatatype
  sock_flag :: "eNodeSocketFlag set"
  sock_cpp_type :: CPPType
  sock_declaration :: SocketDeclaration

definition is_available :: "bNodeSocket \<Rightarrow> bool" where
  "is_available socket = (SOCK_UNAVAIL \<notin> sock_flag socket)"

record DNode =
  inputs :: "bNodeSocket list"
  outputs :: "bNodeSocket list"
  label_or_name :: string

record NodeWarning =
  warning_node :: DNode
  warning_type :: NodeWarningType
  warning_message :: string

text \<open>
  Modelled from the spec: the provider, a "per-invocation binding of a node instance to its
  resolved inputs/outputs" that "tracks which identifiers have been consumed
  (\<^verbatim>\<open>can_get_input\<close>) and which outputs have been set (\<^verbatim>\<open>can_set_output\<close>)".  \<open>input_values\<close>
  holds the inputs that have not been consumed, \<open>output_values\<close> the outputs that have been
  set.  \<open>logger\<close> is \<open>None\<close> when no logger is attached (\<^verbatim>\<open>nullptr\<close>), else the warnings
  logged so far.
\<close>

record GeoNodeExecParamsProvider =
  dnode :: DNode
  logger :: "NodeWarning list option"
  input_values :: "(string \<times> GValue) list"
  output_values :: "(string \<times> GValue) list"

type_synonym GeoNodeExecParams = GeoNodeExecParamsProvider

definition can_get_input :: "GeoNodeExecParams \<Rightarrow> string \<Rightarrow> bool" where
  "can_get_input params identifier = (map_of (input_values params) identifier \<noteq> None)"

definition can_set_output :: "GeoNodeExecParams \<Rightarrow> string \<Rightarrow> bool" where
  "can_set_output params identifier = (map_of (output_values params) identifier = None)"

text \<open>The functions outside the sources that the methods call, as parameters.\<close>

record externals =
  custom_data_type_to_cpp_type :: "CustomDataType \<Rightarrow> CPPType"
  cpp_type_name :: "CPPType \<Rightarrow> string"
  convert_to_uninitialized :: "CPPType \<Rightarrow> CPPType \<Rightarrow> GValue \<Rightarrow> GValue"
  gather_component_types :: "GeometrySet \<Rightarrow> bool \<Rightarrow> bool \<Rightarrow> GeometryComponentType list"
  BKE_mesh_is_valid :: "Mesh \<Rightarrow> bool"

text \<open>\<^verbatim>\<open>TIP_\<close> looks a message up in the translation catalogue; the model keeps the message.\<close>

definition TIP :: "string \<Rightarrow> string" where
  "TIP msgid = msgid"

section \<open>The execution parameters of a node\<close>

definition error_message_add ::
  "GeoNodeExecParams \<Rightarrow> NodeWarningType \<Rightarrow> string \<Rightarrow> GeoNodeExecParams" where
  "error_message_add params type message =
     (case logger params of
        None \<Rightarrow> params
      | Some local_logger \<Rightarrow>
          params\<lparr> logger := Some (local_logger @
            [\<lparr> warning_node = dnode params, warning_type = type, warning_message = message \<rparr>]) \<rparr>)"

subsection \<open>Access checks\<close>

text \<open>
  The two checks return the text written to \<^verbatim>\<open>std::cout\<close> and whether the evaluation goes on.
\<close>

definition quoted :: "string \<Rightarrow> string" where
  "quoted s = [CHR 0x27] @ s @ [CHR 0x27]"

definition possible_identifiers :: "bNodeSocket list \<Rightarrow> string" where
  "possible_identifiers sockets =
     concat (map (\<lambda>socket. quoted (sock_identifier socket) @ '', '') (filter is_available sockets))"

definition check_input_access ::
  "build_type \<Rightarrow> externals \<Rightarrow> GeoNodeExecParams \<Rightarrow> string \<Rightarrow> CPPType option
     \<Rightarrow> string \<times> unit option" where
  "check_input_access build ext params identifier requested_type =
     (case find (\<lambda>socket. sock_identifier socket = identifier) (inputs (dnode params)) of
        None \<Rightarrow>
          (''Did not find an input socket with the identifier '' @ quoted identifier @ ''.\<newline>''
             @ ''Possible identifiers are: '' @ possible_identifiers (inputs (dnode params))
             @ ''\<newline>'',
           BLI_assert_unreachable build)
      | Some found_socket \<Rightarrow>
          if SOCK_UNAVAIL \<in> sock_flag found_socket then
            (''The socket corresponding to the identifier '' @ quoted identifier
               @ '' is disabled.\<newline>'',
             BLI_assert_unreachable build)
          else if \<not> can_get_input params identifier then
            (''The identifier '' @ quoted identifier
               @ '' is valid, but there is no value for it anymore.\<newline>''
               @ ''Most likely it has been extracted before.\<newline>'',
             BLI_assert_unreachable build)
          else (case requested_type of
                  None \<Rightarrow> ([], Some ())
                | Some requested \<Rightarrow>
                    let expected_type = sock_cpp_type found_socket in
                    if requested \<noteq> expected_type then
                      (''The requested type '' @ quoted (cpp_type_name ext requested)
                         @ '' is incorrect. Expected '' @ quoted (cpp_type_name ext expected_type)
                         @ ''.\<newline>'',
                       BLI_assert_unreachable build)
                    else ([], Some ())))"

definition check_output_access ::
  "build_type \<Rightarrow> externals \<Rightarrow> GeoNodeExecParams \<Rightarrow> string \<Rightarrow> CPPType \<Rightarrow> string \<times> unit option" where
  "check_output_access build ext params identifier value_type =
     (case find (\<lambda>socket. sock_identifier socket = identifier) (outputs (dnode params)) of
        None \<Rightarrow>
          (''Did not find an output socket with the identifier '' @ quoted identifier @ ''.\<newline>''
             @ ''Possible identifiers are: '' @ possible_identifiers (outputs (dnode params))
             @ ''\<newline>'',
           BLI_assert_unreachable build)
      | Some found_socket \<Rightarrow>
          if SOCK_UNAVAIL \<in> sock_flag found_socket then
            (''The socket corresponding to the identifier '' @ quoted identifier
               @ '' is disabled.\<newline>'',
             BLI_assert_unreachable build)
          else if \<not> can_set_output params identifier then
            (''The identifier '' @ quoted identifier @ '' has been set already.\<newline>'',
             BLI_assert_unreachable build)
          else
            let expected_type = sock_cpp_type found_socket in
            if value_type \<noteq> expected_type then
              (''The value type '' @ quoted (cpp_type_name ext value_type)
                 @ '' is incorrect. Expected '' @ quoted (cpp_type_name ext expected_type)
                 @ ''.\<newline>'',
               BLI_assert_unreachable build)
            else ([], Some ()))"



subsection \<open>Reading inputs and writing outputs\<close>

text \<open>
  Modelled from the spec: \<^verbatim>\<open>get_input\<close>, \<^verbatim>\<open>extract_input\<close> and \<^verbatim>\<open>set_output\<close> are
  templates of the header NOD_geometry_exec.hh, which is not part of the sources.
  \<^verbatim>\<open>get_input<T>\<close> "fails the invocation [...] if the identifier is unknown, the socket is
  disabled, the input was already consumed, or T does not match the socket's declared type";
  these are the four conditions of \<open>check_input_access\<close>, and the failure is the one
  that the check reaches in a debug build.  \<^verbatim>\<open>extract_input<T>\<close> "additionally marks the
  input consumed".  \<^verbatim>\<open>set_output\<close> has the "symmetric contract", the conditions of
  \<open>check_output_access\<close>.  Reading a stored value at another type than its own is a
  contract violation as well (spec, section 3).
\<close>

definition get_input ::
  "externals \<Rightarrow> GeoNodeExecParams \<Rightarrow> string \<Rightarrow> CPPType \<Rightarrow> GValue option" where
  "get_input ext params identifier T = do {
     _ \<leftarrow> snd (check_input_access Debug ext params identifier (Some T));
     gvalue \<leftarrow> map_of (input_values params) identifier;
     if type_of_value gvalue = T then Some gvalue else None
   }"

definition extract_input ::
  "externals \<Rightarrow> GeoNodeExecParams \<Rightarrow> string \<Rightarrow> CPPType \<Rightarrow> (GValue \<times> GeoNodeExecParams) option" where
  "extract_input ext params identifier T = do {
     gvalue \<leftarrow> get_input ext params identifier T;
     Some (gvalue,
           params\<lparr> input_values := filter (\<lambda>(k, _). k \<noteq> identifier) (input_values params) \<rparr>)
   }"

definition set_output ::
  "externals \<Rightarrow> GeoNodeExecParams \<Rightarrow> string \<Rightarrow> GValue \<Rightarrow> GeoNodeExecParams option" where
  "set_output ext params identifier gvalue = do {
     _ \<leftarrow> snd (check_output_access Debug ext params identifier (type_of_value gvalue));
     Some (params\<lparr> output_values := output_values params @ [(identifier, gvalue)] \<rparr>)
   }"

fun string_of :: "GValue \<Rightarrow> string option" where
  "string_of (V_string s) = Some s"
| "string_of _ = None"

fun int_of :: "GValue \<Rightarrow> int option" where
  "int_of (V_int i) = Some i"
| "int_of _ = None"

fun float_of :: "GValue \<Rightarrow> float option" where
  "float_of (V_float x) = Some x"
| "float_of _ = None"

subsection \<open>Checking a geometry input against its declaration\<close>

text \<open>
  Modelled from the spec: \<^verbatim>\<open>input_by_identifier\<close> of the node (not part of the sources)
  returns the input socket with the identifier; an unknown identifier is a contract
  violation.
\<close>

definition input_by_identifier :: "DNode \<Rightarrow> string \<Rightarrow> bNodeSocket option" where
  "input_by_identifier node identifier =
     find (\<lambda>socket. sock_identifier socket = identifier) (inputs node)"

definition unsupported_type_message :: "build_type \<Rightarrow> GeometryComponentType \<Rightarrow> string option" where
  "unsupported_type_message build type = do {
     let message = TIP ''Input geometry has unsupported type: '';
     case type of
       GEO_COMPONENT_TYPE_MESH \<Rightarrow> Some (message @ TIP ''Mesh'')
     | GEO_COMPONENT_TYPE_POINT_CLOUD \<Rightarrow> Some (message @ TIP ''Point Cloud'')
     | GEO_COMPONENT_TYPE_INSTANCES \<Rightarrow> do { _ \<leftarrow> BLI_assert_unreachable build; Some message }
     | GEO_COMPONENT_TYPE_VOLUME \<Rightarrow> Some (message @ TIP ''Volume'')
     | GEO_COMPONENT_TYPE_CURVE \<Rightarrow> Some (message @ TIP ''Curve'')
   }"

text \<open>
  For the statements about the log: the name that the message of an unsupported type ends
  with, and the three warnings of the check as log entries of a node.
\<close>

fun geometry_type_name :: "GeometryComponentType \<Rightarrow> string" where
  "geometry_type_name GEO_COMPONENT_TYPE_MESH = ''Mesh''"
| "geometry_type_name GEO_COMPONENT_TYPE_POINT_CLOUD = ''Point Cloud''"
| "geometry_type_name GEO_COMPONENT_TYPE_INSTANCES = []"
| "geometry_type_name GEO_COMPONENT_TYPE_VOLUME = ''Volume''"
| "geometry_type_name GEO_COMPONENT_TYPE_CURVE = ''Curve''"

definition info_warning :: "DNode \<Rightarrow> string \<Rightarrow> NodeWarning" where
  "info_warning node message =
     \<lparr> warning_node = node, warning_type = Info, warning_message = message \<rparr>"

definition unsupported_type_warning :: "DNode \<Rightarrow> GeometryComponentType \<Rightarrow> NodeWarning" where
  "unsupported_type_warning node type =
     info_warning node (''Input geometry has unsupported type: '' @ geometry_type_name type)"

text \<open>
  The warnings of the three conditions, each under its own condition, in the order of the
  checks.
\<close>

definition geometry_input_warnings ::
  "externals \<Rightarrow> DNode \<Rightarrow> bool \<Rightarrow> bool \<Rightarrow> GeometryComponentType list \<Rightarrow> GeometrySet
     \<Rightarrow> NodeWarning list" where
  "geometry_input_warnings ext node realized instances supported geometry_set =
     (if realized \<and> has_instances geometry_set
      then [info_warning node ''Instances in input geometry are ignored''] else [])
     @ (if instances \<and> has_realized_data geometry_set
        then [info_warning node ''Realized data in input geometry is ignored''] else [])
     @ map (unsupported_type_warning node)
         (filter (\<lambda>type. type \<noteq> GEO_COMPONENT_TYPE_INSTANCES \<and> type \<notin> set supported)
            (if supported = [] then [] else gather_component_types ext geometry_set True True))"

definition check_input_geometry_set ::
  "build_type \<Rightarrow> externals \<Rightarrow> GeoNodeExecParams \<Rightarrow> string \<Rightarrow> GeometrySet
     \<Rightarrow> GeoNodeExecParams option" where
  "check_input_geometry_set build ext params identifier geometry_set = do {
     socket \<leftarrow> input_by_identifier (dnode params) identifier;
     let geo_decl = kind (sock_declaration socket);
     if \<not> is_decl_Geometry geo_decl then Some params
     else do {
       let params =
         (if only_realized_data geo_decl then
            (if has_instances geometry_set
             then error_message_add params Info (TIP ''Instances in input geometry are ignored'')
             else params)
          else params);
       let params =
         (if only_instances geo_decl then
            (if has_realized_data geometry_set
             then error_message_add params Info (TIP ''Realized data in input geometry is ignored'')
             else params)
          else params);
       if supported_types geo_decl = [] then Some params
       else do {
         let types_in_geometry = gather_component_types ext geometry_set True True;
         for_each types_in_geometry (\<lambda>type params.
           if type = GEO_COMPONENT_TYPE_INSTANCES then Some params
           else if type \<in> set (supported_types geo_decl) then Some params
           else do {
             message \<leftarrow> unsupported_type_message build type;
             Some (error_message_add params Info message)
           }) params
       }
     }
   }"

subsection \<open>Attribute inputs\<close>

definition find_available_socket :: "GeoNodeExecParams \<Rightarrow> string \<Rightarrow> bNodeSocket option" where
  "find_available_socket params name =
     find (\<lambda>socket. is_available socket \<and> sock_name socket = name) (inputs (dnode params))"

definition no_attribute_message :: "string \<Rightarrow> string" where
  "no_attribute_message name = TIP ''No attribute with name '' @ [CHR 0x22] @ name @ [CHR 0x22]"

definition get_input_attribute ::
  "build_type \<Rightarrow> externals \<Rightarrow> GeoNodeExecParams \<Rightarrow> string \<Rightarrow> GeometryComponent
     \<Rightarrow> AttributeDomain \<Rightarrow> CustomDataType \<Rightarrow> GValue option
     \<Rightarrow> (GVArray \<times> GeoNodeExecParams) option" where
  "get_input_attribute build ext params name component domain type default_value = do {
     let found_socket = find_available_socket params name;
     _ \<leftarrow> BLI_assert build (found_socket \<noteq> None);
     let cpp_type = custom_data_type_to_cpp_type ext type;
     let domain_size = attribute_domain_size component domain;
     let default_value =
       (case default_value of None \<Rightarrow> CPPType_default_value cpp_type | Some x \<Rightarrow> x);
     case found_socket of
       None \<Rightarrow> Some (GVArray_For_SingleValue cpp_type domain_size default_value, params)
     | Some found_socket \<Rightarrow>
         if sock_type found_socket = SOCK_STRING then do {
           name \<leftarrow> get_input ext params (sock_identifier found_socket) CPP_string \<bind> string_of;
           case attribute_try_get_for_read component name domain type of
             Some attribute \<Rightarrow> Some (attribute, params)
           | None \<Rightarrow> do {
               let params =
                 (if name \<noteq> [] \<and> attribute_domain_size component domain \<noteq> 0
                  then error_message_add params Error (no_attribute_message name)
                  else params);
               Some (GVArray_For_SingleValue cpp_type domain_size default_value, params)
             }
         }
         else if sock_type found_socket = SOCK_FLOAT then do {
           gvalue \<leftarrow> get_input ext params (sock_identifier found_socket) CPP_float;
           let buffer = convert_to_uninitialized ext CPP_float cpp_type gvalue;
           Some (GVArray_For_SingleValue cpp_type domain_size buffer, params)
         }
         else if sock_type found_socket = SOCK_INT then do {
           gvalue \<leftarrow> get_input ext params (sock_identifier found_socket) CPP_int;
           let buffer = convert_to_uninitialized ext CPP_int cpp_type gvalue;
           Some (GVArray_For_SingleValue cpp_type domain_size buffer, params)
         }
         else if sock_type found_socket = SOCK_VECTOR then do {
           gvalue \<leftarrow> get_input ext params (sock_identifier found_socket) CPP_float3;
           let buffer = convert_to_uninitialized ext CPP_float3 cpp_type gvalue;
           Some (GVArray_For_SingleValue cpp_type domain_size buffer, params)
         }
         else if sock_type found_socket = SOCK_RGBA then do {
           gvalue \<leftarrow> get_input ext params (sock_identifier found_socket) CPP_ColorGeometry4f;
           let buffer = convert_to_uninitialized ext CPP_ColorGeometry4f cpp_type gvalue;
           Some (GVArray_For_SingleValue cpp_type domain_size buffer, params)
         }
         else do {
           _ \<leftarrow> BLI_assert build False;
           Some (GVArray_For_SingleValue cpp_type domain_size default_value, params)
         }
   }"

definition get_input_attribute_data_type ::
  "build_type \<Rightarrow> externals \<Rightarrow> GeoNodeExecParams \<Rightarrow> string \<Rightarrow> GeometryComponent
     \<Rightarrow> CustomDataType \<Rightarrow> CustomDataType option" where
  "get_input_attribute_data_type build ext params name component default_type = do {
     let found_socket = find_available_socket params name;
     _ \<leftarrow> BLI_assert build (found_socket \<noteq> None);
     case found_socket of
       None \<Rightarrow> Some default_type
     | Some found_socket \<Rightarrow>
         if sock_type found_socket = SOCK_STRING then do {
           name \<leftarrow> get_input ext params (sock_identifier found_socket) CPP_string \<bind> string_of;
           case attribute_get_meta_data component name of
             Some info \<Rightarrow> Some (md_data_type info)
           | None \<Rightarrow> Some default_type
         }
         else if sock_type found_socket = SOCK_FLOAT then Some CD_PROP_FLOAT
         else if sock_type found_socket = SOCK_VECTOR then Some CD_PROP_FLOAT3
         else if sock_type found_socket = SOCK_RGBA then Some CD_PROP_COLOR
         else if sock_type found_socket = SOCK_BOOLEAN then Some CD_PROP_BOOL
         else do {
           _ \<leftarrow> BLI_assert build False;
           Some default_type
         }
   }"

section \<open>The UV-sphere node\<close>

definition geo_node_mesh_primitive_uv_shpere_declare :: NodeDeclaration where
  "geo_node_mesh_primitive_uv_shpere_declare =
     \<lparr> decl_inputs =
         [\<lparr> decl_name = ''Segments'',
            decl_description = ''Horizontal resolution of the sphere'',
            kind = decl_Int 32 (Some 3) (Some 1024) \<rparr>,
          \<lparr> decl_name = ''Rings'',
            decl_description = ''The number of horizontal rings'',
            kind = decl_Int 16 (Some 2) (Some 1024) \<rparr>,
          \<lparr> decl_name = ''Radius'',
            decl_description = ''Distance from the generated points to the origin'',
            kind = decl_Float 0x3F800000 (Some 0) None PROP_DISTANCE \<rparr>],
       decl_outputs =
         [\<lparr> decl_name = ''Mesh'', decl_description = [],
            kind = decl_Geometry False False [] \<rparr>] \<rparr>"

definition geo_node_mesh_primitive_uv_sphere_exec ::
  "build_type \<Rightarrow> externals \<Rightarrow> GeoNodeExecParams \<Rightarrow> GeoNodeExecParams option" where
  "geo_node_mesh_primitive_uv_sphere_exec build ext params = do {
     (gvalue, params) \<leftarrow> extract_input ext params ''Segments'' CPP_int;
     segments_num \<leftarrow> int_of gvalue;
     (gvalue, params) \<leftarrow> extract_input ext params ''Rings'' CPP_int;
     rings_num \<leftarrow> int_of gvalue;
     if segments_num < 3 \<or> rings_num < 2 then do {
       let params =
         (if segments_num < 3
          then error_message_add params Info (TIP ''Segments must be at least 3'')
          else params);
       let params =
         (if rings_num < 3
          then error_message_add params Info (TIP ''Rings must be at least 3'')
          else params);
       set_output ext params ''Mesh'' (V_geometry (GeometrySet []))
     }
     else do {
       (gvalue, params) \<leftarrow> extract_input ext params ''Radius'' CPP_float;
       radius \<leftarrow> float_of gvalue;
       mesh \<leftarrow> create_uv_sphere_mesh build (BKE_mesh_is_valid ext) radius segments_num rings_num;
       set_output ext params ''Mesh'' (V_geometry (create_with_mesh mesh))
     }
   }"

subsection \<open>A node built from its declaration\<close>

text \<open>
  Modelled from the spec: the node registration interface (section 6).  The sockets of a
  node are those of its declaration, in order; the identifier of a socket is its declared
  name, and every socket is available.
\<close>

fun socket_type_of_kind :: "decl_kind \<Rightarrow> eNodeSocketDatatype" where
  "socket_type_of_kind (decl_Float _ _ _ _) = SOCK_FLOAT"
| "socket_type_of_kind (decl_Int _ _ _) = SOCK_INT"
| "socket_type_of_kind decl_Vector = SOCK_VECTOR"
| "socket_type_of_kind decl_Color = SOCK_RGBA"
| "socket_type_of_kind decl_Bool = SOCK_BOOLEAN"
| "socket_type_of_kind decl_String = SOCK_STRING"
| "socket_type_of_kind (decl_Geometry _ _ _) = SOCK_GEOMETRY"

fun cpp_type_of_kind :: "decl_kind \<Rightarrow> CPPType" where
  "cpp_type_of_kind (decl_Float _ _ _ _) = CPP_float"
| "cpp_type_of_kind (decl_Int _ _ _) = CPP_int"
| "cpp_type_of_kind decl_Vector = CPP_float3"
| "cpp_type_of_kind decl_Color = CPP_ColorGeometry4f"
| "cpp_type_of_kind decl_Bool = CPP_bool"
| "cpp_type_of_kind decl_String = CPP_string"
| "cpp_type_of_kind (decl_Geometry _ _ _) = CPP_GeometrySet"

definition socket_of_declaration :: "SocketDeclaration \<Rightarrow> bNodeSocket" where
  "socket_of_declaration decl =
     \<lparr> sock_identifier = decl_name decl, sock_name = decl_name decl,
       sock_type = socket_type_of_kind (kind decl), sock_flag = {},
       sock_cpp_type = cpp_type_of_kind (kind decl), sock_declaration = decl \<rparr>"

definition node_of_declaration :: "string \<Rightarrow> NodeDeclaration \<Rightarrow> DNode" where
  "node_of_declaration ui_name declaration =
     \<lparr> inputs = map socket_of_declaration (decl_inputs declaration),
       outputs = map socket_of_declaration (decl_outputs declaration),
       label_or_name = ui_name \<rparr>"

definition uv_sphere_node :: DNode where
  "uv_sphere_node = node_of_declaration ''UV Sphere'' geo_node_mesh_primitive_uv_shpere_declare"

text \<open>
  The parameters of one invocation of the UV-sphere node: the three inputs carry values
  of their declared types, no output is set.
\<close>

definition uv_sphere_params ::
  "int \<Rightarrow> int \<Rightarrow> float \<Rightarrow> NodeWarning list option \<Rightarrow> GeoNodeExecParams" where
  "uv_sphere_params segments rings radius log =
     \<lparr> dnode = uv_sphere_node, logger = log,
       input_values = [(''Segments'', V_int segments), (''Rings'', V_int rings),
                       (''Radius'', V_float radius)],
       output_values = [] \<rparr>"

section \<open>Example instances\<close>

text \<open>
  Concrete instances at which the theorems below are evaluated: an instance of the external
  functions, a component without attributes, and a node with two geometry inputs (the second
  one supports meshes only), a string input and an integer input.
\<close>

fun example_type_mapping :: "CustomDataType \<Rightarrow> CPPType" where
  "example_type_mapping CD_PROP_FLOAT = CPP_float"
| "example_type_mapping CD_PROP_INT32 = CPP_int"
| "example_type_mapping CD_PROP_FLOAT3 = CPP_float3"
| "example_type_mapping CD_PROP_COLOR = CPP_ColorGeometry4f"
| "example_type_mapping CD_PROP_BOOL = CPP_bool"

fun example_type_name :: "CPPType \<Rightarrow> string" where
  "example_type_name CPP_float = ''float''"
| "example_type_name CPP_int = ''int32''"
| "example_type_name CPP_float3 = ''float3''"
| "example_type_name CPP_ColorGeometry4f = ''ColorGeometry4f''"
| "example_type_name CPP_bool = ''bool''"
| "example_type_name CPP_string = ''string''"
| "example_type_name CPP_GeometrySet = ''GeometrySet''"

definition example_convert :: "CPPType \<Rightarrow> CPPType \<Rightarrow> GValue \<Rightarrow> GValue" where
  "example_convert from_type to_type x =
     (if from_type = to_type then x else CPPType_default_value to_type)"

definition example_gather :: "GeometrySet \<Rightarrow> bool \<Rightarrow> bool \<Rightarrow> GeometryComponentType list" where
  "example_gather geometry_set include_instances recurse =
     remdups (map component_type (components geometry_set))"

definition mesh_arrays_match :: "Mesh \<Rightarrow> bool" where
  "mesh_arrays_match mesh =
     (int (length (mvert mesh)) = totvert mesh \<and> int (length (medge mesh)) = totedge mesh
      \<and> int (length (mloop mesh)) = totloop_mesh mesh \<and> int (length (mpoly mesh)) = totpoly mesh)"

definition example_externals :: externals where
  "example_externals =
     \<lparr> custom_data_type_to_cpp_type = example_type_mapping,
       cpp_type_name = example_type_name,
       convert_to_uninitialized = example_convert,
       gather_component_types = example_gather,
       BKE_mesh_is_valid = mesh_arrays_match \<rparr>"

definition example_component :: "int \<Rightarrow> GeometryComponent" where
  "example_component n =
     \<lparr> attribute_domain_size = (\<lambda>domain. n),
       attribute_try_get_for_read = (\<lambda>name domain type. None),
       attribute_get_meta_data = (\<lambda>name. None) \<rparr>"

definition example_declaration :: NodeDeclaration where
  "example_declaration =
     \<lparr> decl_inputs =
         [\<lparr> decl_name = ''Geometry'', decl_description = [],
            kind = decl_Geometry True False [] \<rparr>,
          \<lparr> decl_name = ''Target'', decl_description = [],
            kind = decl_Geometry False False [GEO_COMPONENT_TYPE_MESH] \<rparr>,
          \<lparr> decl_name = ''Attribute'', decl_description = [], kind = decl_String \<rparr>,
          \<lparr> decl_name = ''Count'', decl_description = [], kind = decl_Int 0 None None \<rparr>],
       decl_outputs =
         [\<lparr> decl_name = ''Geometry'', decl_description = [],
            kind = decl_Geometry False False [] \<rparr>] \<rparr>"

definition example_params ::
  "GeometrySet \<Rightarrow> string \<Rightarrow> int \<Rightarrow> NodeWarning list option \<Rightarrow> GeoNodeExecParams" where
  "example_params geometry_set attribute_name count log =
     \<lparr> dnode = node_of_declaration ''Example'' example_declaration, logger = log,
       input_values = [(''Geometry'', V_geometry geometry_set),
                       (''Target'', V_geometry geometry_set),
                       (''Attribute'', V_string attribute_name), (''Count'', V_int count)],
       output_values = [] \<rparr>"

definition mesh_and_instances :: GeometrySet where
  "mesh_and_instances =
     GeometrySet [MeshComponent (BKE_mesh_new_nomain 0 0 0 0 0), InstancesComponent]"

definition instances_and_curve :: GeometrySet where
  "instances_and_curve = GeometrySet [InstancesComponent, CurveComponent]"

definition f_one :: float where
  "f_one = 0x3F800000"

section \<open>Arithmetic of 32-bit integers and of floats holding integers\<close>

lemma int32_id: "- (2 ^ 31) \<le> x \<Longrightarrow> x < 2 ^ 31 \<Longrightarrow> int32 x = x"
  by (simp add: int32_def)

lemma int32_range: "- (2 ^ 31) \<le> int32 x \<and> int32 x < 2 ^ 31"
proof -
  have "0 \<le> (x + 2 ^ 31) mod 2 ^ 32" and "(x + 2 ^ 31) mod 2 ^ 32 < 2 ^ 32"
    by simp_all
  then show ?thesis by (simp add: int32_def)
qed

lemma float_round_exact:
  assumes "\<bar>x\<bar> \<le> 2 ^ 24"
  shows "float_round x = x"
proof (cases "\<bar>x\<bar> < 2 ^ 24")
  case True
  then show ?thesis by (simp add: float_round_def float_ulp_def)
next
  case False
  with assms have "x = 2 ^ 24 \<or> x = - (2 ^ 24)" by auto
  then show ?thesis by (auto simp: float_round_def float_ulp_def)
qed

section \<open>Loops that fill a span\<close>

lemma for_each_invariant:
  assumes "I 0 s"
    and "\<And>k s. k < length xs \<Longrightarrow> I k s \<Longrightarrow> \<exists>s'. body (xs ! k) s = Some s' \<and> I (Suc k) s'"
  shows "\<exists>s'. for_each xs body s = Some s' \<and> I (length xs) s'"
  using assms
proof (induction xs arbitrary: s I)
  case Nil
  then show ?case by simp
next
  case (Cons x xs)
  from Cons.prems(2)[of 0 s] Cons.prems(1)
  obtain s1 where s1: "body x s = Some s1" "I (Suc 0) s1" by auto
  have "\<exists>s'. for_each xs body s1 = Some s' \<and> I (Suc (length xs)) s'"
  proof (rule Cons.IH[of "\<lambda>k. I (Suc k)"])
    show "I (Suc 0) s1" by (rule s1(2))
  next
    fix k s assume "k < length xs" "I (Suc k) s"
    with Cons.prems(2)[of "Suc k" s]
    show "\<exists>s'. body (xs ! k) s = Some s' \<and> I (Suc (Suc k)) s'" by simp
  qed
  with s1(1) show ?case by simp
qed

lemma returns_iff: "returns m Q \<longleftrightarrow> (\<exists>a. m = Some a \<and> Q a)"
  by (cases m) (simp_all add: returns_def)

lemma returns_Some [simp]: "returns (Some a) Q \<longleftrightarrow> Q a"
  by (simp add: returns_def)

lemma returns_bind:
  assumes "returns m P" and "\<And>a. P a \<Longrightarrow> returns (f a) Q"
  shows "returns (m \<bind> f) Q"
  using assms by (cases m) (simp_all add: returns_def)

lemma returns_weaken:
  assumes "returns m P" and "\<And>a. P a \<Longrightarrow> Q a"
  shows "returns m Q"
  using assms by (cases m) (simp_all add: returns_def)

lemma returns_for_range:
  assumes "0 \<le> start" and "0 \<le> len" and "I 0 s"
    and step: "\<And>k s. 0 \<le> k \<Longrightarrow> k < len \<Longrightarrow> I k s \<Longrightarrow> returns (body (start + k) s) (I (k + 1))"
  shows "returns (for_range start len body s) (I len)"
proof -
  let ?xs = "[start..start + len - 1]"
  have "\<exists>s'. for_each ?xs body s = Some s' \<and> (\<lambda>k. I (int k)) (length ?xs) s'"
  proof (rule for_each_invariant[of "\<lambda>k. I (int k)"])
    show "I (int 0) s" using assms(3) by simp
  next
    fix k s assume k: "k < length ?xs" and "I (int k) s"
    then have "\<exists>s'. body (start + int k) s = Some s' \<and> I (int k + 1) s'"
      using step[of "int k" s] by (simp add: returns_iff)
    moreover have "?xs ! k = start + int k" using k by simp
    ultimately show "\<exists>s'. body (?xs ! k) s = Some s' \<and> I (int (Suc k)) s'"
      by (simp add: add.commute)
  qed
  with assms(1,2) show ?thesis by (simp add: for_range_def returns_iff)
qed

lemma returns_span_set:
  "0 \<le> j \<Longrightarrow> j < int (length ys) \<Longrightarrow> returns (span_set ys j x) (\<lambda>zs. length zs = length ys)"
  by (simp add: span_set_def)

lemma returns_span_push:
  "at_index n j st \<Longrightarrow> 0 \<le> j \<Longrightarrow> j < int n \<Longrightarrow> returns (span_push st x) (at_index n (j + 1))"
  by (cases st) (simp add: span_push_def span_set_def at_index_def int32_id)

text \<open>A loop whose every iteration advances the running index by \<open>c\<close>.\<close>

lemma returns_push_loop:
  fixes st :: "'a list \<times> int"
  assumes "at_index n i st" and "0 \<le> start" and "0 \<le> len" and "0 \<le> c" and "0 \<le> i"
    and "i + len * c \<le> int n"
    and body: "\<And>k j st. 0 \<le> k \<Longrightarrow> k < len \<Longrightarrow> at_index n j st \<Longrightarrow> 0 \<le> j \<Longrightarrow>
                 j + c \<le> int n \<Longrightarrow> returns (body (start + k) st) (at_index n (j + c))"
  shows "returns (for_range start len body st) (at_index n (i + len * c))"
proof (rule returns_for_range[where I = "\<lambda>k. at_index n (i + k * c)"])
  show "at_index n (i + 0 * c) st" using assms(1) by simp
next
  fix k and s :: "'a list \<times> int"
  assume k: "0 \<le> k" "k < len" and s: "at_index n (i + k * c) s"
  have "(k + 1) * c \<le> len * c" using k assms(4) by (intro mult_right_mono) auto
  then have "i + k * c + c \<le> int n" using assms(6) by (simp add: algebra_simps)
  moreover have "0 \<le> i + k * c" using assms(4,5) k by simp
  ultimately have "returns (body (start + k) s) (at_index n (i + k * c + c))"
    using body[OF k s] by simp
  then show "returns (body (start + k) s) (at_index n (i + (k + 1) * c))"
    by (simp add: algebra_simps)
qed (use assms in auto)

lemma vertex_data_returns:
  assumes "0 \<le> segments" "2 \<le> rings" "rings < 2 ^ 31"
    and "int (length verts) = segments * (rings - 1) + 2" "int (length verts) < 2 ^ 31"
  shows "returns (calculate_sphere_vertex_data verts radius segments rings)
           (\<lambda>verts'. length verts' = length verts)"
proof -
  let ?n = "length verts"
  note n = assms(4)
  have "0 \<le> segments * (rings - 1)" using assms by simp
  with n have n2: "2 \<le> int ?n" by simp
  have rings: "int32 (rings - 1) = rings - 1" using assms(2,3) by (simp add: int32_id)
  show ?thesis
    unfolding calculate_sphere_vertex_data_def Let_def rings
  proof (rule returns_bind[OF returns_span_set], goal_cases)
    case (3 vs)
    show ?case
    proof (rule returns_bind[where P = "at_index ?n (1 + (rings - 1) * segments)"], goal_cases)
      case 1
      show ?case
      proof (rule returns_push_loop, goal_cases)
        case (7 k j st)
        show ?case
          by (rule returns_push_loop[where c = 1 and len = segments, simplified])
             (use 7 assms in \<open>auto intro: returns_span_push\<close>)
      qed (use 3 assms n in \<open>auto simp: at_index_def algebra_simps\<close>)
    next
      case (2 a)
      then show ?case using n2
        by (cases a) (auto simp: at_index_def intro!: returns_weaken[OF returns_span_set])
    qed
  qed (use n2 in auto)
qed

lemma returns_set_edge:
  "at_index n j st \<Longrightarrow> 0 \<le> j \<Longrightarrow> j < int n \<Longrightarrow> returns (set_edge st a b) (at_index n (j + 1))"
  by (simp add: set_edge_def returns_span_push)

lemma returns_edge_run:
  assumes "at_index n i st" "0 \<le> segments" "0 \<le> i" "i + segments \<le> int n"
  shows "returns (for_range 0 segments (\<lambda>segment st. set_edge st (f segment) (g segment)) st)
           (at_index n (i + segments))"
  by (rule returns_push_loop[where c = 1 and len = segments, simplified])
     (use assms in \<open>auto intro: returns_set_edge\<close>)

lemma edge_indices_returns:
  assumes "0 \<le> segments" "2 \<le> rings" "rings < 2 ^ 31"
    and "int (length edges) = segments * (rings * 2 - 1)" "int (length edges) < 2 ^ 31"
  shows "returns (calculate_sphere_edge_indices edges segments rings)
           (\<lambda>edges'. length edges' = length edges)"
proof -
  let ?n = "length edges"
  define pos where "pos k = segments + k * segments + min k (rings - 2) * segments" for k
  note n = assms(4)
  have rings: "int32 (rings - 1) = rings - 1" "int32 (rings - 2) = rings - 2"
    using assms(2,3) by (simp_all add: int32_id)
  have "segments * 1 \<le> segments * (rings * 2 - 1)"
    using assms(1,2) by (intro mult_left_mono) auto
  then have seg_le: "segments \<le> int ?n" by (simp add: n)
  have pos_last: "pos (rings - 1) + segments = int ?n"
    using assms(2) by (simp add: pos_def n algebra_simps)
  have pos_mono: "pos k + segments \<le> pos (k + 1)" for k
  proof -
    have "min k (rings - 2) * segments \<le> min (k + 1) (rings - 2) * segments"
      using assms(1) by (intro mult_right_mono) auto
    then show ?thesis by (simp add: pos_def algebra_simps)
  qed
  have pos_step: "pos (k + 1) = pos k + segments + (if k < rings - 2 then segments else 0)"
    if "0 \<le> k" "k < rings - 1" for k
  proof (cases "k < rings - 2")
    case True
    then show ?thesis by (simp add: pos_def algebra_simps)
  next
    case False
    with that have r: "rings = k + 2" by simp
    show ?thesis unfolding r pos_def by (simp add: algebra_simps)
  qed
  have pos_nonneg: "0 \<le> pos k" if "0 \<le> k" for k
    using assms that by (simp add: pos_def)
  have pos_le: "pos (k + 1) \<le> pos (rings - 1)" if "0 \<le> k" "k < rings - 1" for k
  proof -
    have "k + 1 \<le> rings - 1" using that by simp
    then have "(k + 1) * segments \<le> (rings - 1) * segments"
      and "min (k + 1) (rings - 2) * segments \<le> min (rings - 1) (rings - 2) * segments"
      using assms(1) by (auto intro!: mult_right_mono)
    then show ?thesis by (simp add: pos_def)
  qed
  show ?thesis
    unfolding calculate_sphere_edge_indices_def Let_def rings
  proof (rule returns_bind[where P = "at_index ?n (0 + segments)"], goal_cases)
    case 1
    show ?case
      by (rule returns_edge_run) (use assms seg_le in \<open>auto simp: at_index_def\<close>)
  next
    case (2 st0)
    then have st0: "at_index ?n (pos 0) st0" using assms(2) by (simp add: pos_def)
    show ?case
    proof (rule returns_bind[where P = "\<lambda>a. at_index ?n (pos (rings - 1)) (fst a)"], goal_cases)
      case 1
      show ?case
      proof (rule returns_for_range[where I = "\<lambda>k a. at_index ?n (pos k) (fst a)"], goal_cases)
        case (4 k a)
        obtain st rvs where a: "a = (st, rvs)" by (cases a)
        from 4 a have st: "at_index ?n (pos k) st" by simp
        have bound: "pos (k + 1) \<le> int ?n"
          using pos_le[OF 4(1,2)] pos_last assms(1) by simp
        have fits: "pos k + segments \<le> int ?n"
          using pos_mono[of k] bound by simp
        show ?case
          unfolding a prod.case
        proof (rule returns_bind[where P = "at_index ?n (pos k + segments)"], goal_cases)
          case 1
          show ?case
            by (rule returns_edge_run) (use st assms fits pos_nonneg[OF 4(1)] in auto)
        next
          case (2 st1)
          show ?case
          proof (rule returns_bind[where P = "at_index ?n (pos (k + 1))"], goal_cases)
            case 1
            show ?case
            proof (cases "k < rings - 2")
              case True
              have "returns (for_range 0 segments (\<lambda>segment st.
                       set_edge st (int32 (rvs + segment))
                         (int32 (int32 (rvs + segments) + segment))) st1)
                     (at_index ?n (pos k + segments + segments))"
                by (rule returns_edge_run)
                   (use 2 assms bound pos_nonneg[OF 4(1)] pos_step[OF 4(1,2)] True in auto)
              then show ?thesis using True pos_step[OF 4(1,2)] by simp
            next
              case False
              then show ?thesis using 2 pos_step[OF 4(1,2)] by simp
            qed
          next
            case (2 st2)
            then show ?case by simp
          qed
        qed
      qed (use assms st0 in auto)
    next
      case (2 a)
      obtain st rvs where a: "a = (st, rvs)" by (cases a)
      show ?case
        unfolding a prod.case
      proof (rule returns_bind[where P = "at_index ?n (pos (rings - 1) + segments)"], goal_cases)
        case 1
        show ?case
          by (rule returns_edge_run)
             (use 2 a assms pos_last pos_nonneg[of "rings - 1"] in auto)
      next
        case (2 b)
        then show ?case by (cases b) (auto simp: at_index_def)
      qed
    qed
  qed
qed

lemma returns_triangle:
  assumes "face_at nl np li pi st" "0 \<le> li" "li + 3 \<le> int nl" "0 \<le> pi" "pi < int np"
  shows "returns (begin_poly st 3 \<bind> (\<lambda>st. add_loop st a1 b1 \<bind> (\<lambda>st. add_loop st a2 b2 \<bind>
            (\<lambda>st. add_loop st a3 b3)))) (face_at nl np (li + 3) (pi + 1))"
  using assms
  by (cases st) (simp add: begin_poly_def add_loop_def span_set_def face_at_def int32_id)

lemma returns_quad:
  assumes "face_at nl np li pi st" "0 \<le> li" "li + 4 \<le> int nl" "0 \<le> pi" "pi < int np"
  shows "returns (begin_poly st 4 \<bind> (\<lambda>st. add_loop st a1 b1 \<bind> (\<lambda>st. add_loop st a2 b2 \<bind>
            (\<lambda>st. add_loop st a3 b3 \<bind> (\<lambda>st. add_loop st a4 b4)))))
           (face_at nl np (li + 4) (pi + 1))"
  using assms
  by (cases st) (simp add: begin_poly_def add_loop_def span_set_def face_at_def int32_id)

text \<open>A loop whose every iteration adds one face of \<open>c\<close> corners.\<close>

lemma returns_face_loop:
  assumes "face_at nl np li pi st" and "0 \<le> len" and "0 \<le> c" and "0 \<le> li" and "0 \<le> pi"
    and "li + len * c \<le> int nl" and "pi + len \<le> int np"
    and body: "\<And>k li pi st. 0 \<le> k \<Longrightarrow> k < len \<Longrightarrow> face_at nl np li pi st \<Longrightarrow> 0 \<le> li \<Longrightarrow>
                 li + c \<le> int nl \<Longrightarrow> 0 \<le> pi \<Longrightarrow> pi < int np \<Longrightarrow>
                 returns (body k st) (face_at nl np (li + c) (pi + 1))"
  shows "returns (for_range 0 len body st) (face_at nl np (li + len * c) (pi + len))"
proof (rule returns_for_range[where I = "\<lambda>k. face_at nl np (li + k * c) (pi + k)" and start = 0,
         simplified], goal_cases)
  case (3 k s)
  have "(k + 1) * c \<le> len * c" using 3 assms(3) by (intro mult_right_mono) auto
  then have "li + k * c + c \<le> int nl" using assms(6) by (simp add: algebra_simps)
  moreover have "0 \<le> li + k * c" using assms(3,4) 3 by simp
  ultimately have "returns (body k s) (face_at nl np (li + k * c + c) (pi + k + 1))"
    using body[of k "li + k * c" "pi + k" s] 3 assms(5,7) by simp
  then show ?case by (simp add: algebra_simps)
qed (use assms in auto)

lemma faces_returns:
  assumes "0 \<le> segments" "2 \<le> rings" "rings < 2 ^ 31"
    and "int (length loops) = 4 * (segments * (rings - 2)) + 6 * segments"
    and "int (length polys) = segments * (rings - 2) + 2 * segments"
    and "int (length loops) < 2 ^ 31" "int (length polys) < 2 ^ 31"
  shows "returns (calculate_sphere_faces loops polys segments rings)
           (\<lambda>(loops', polys'). length loops' = length loops \<and> length polys' = length polys)"
proof -
  let ?nl = "length loops" and ?np = "length polys"
  let ?q = "segments * (rings - 2)"
  have nl: "int ?nl = 4 * ?q + 3 * segments + 3 * segments" using assms(4) by simp
  have np: "int ?np = ?q + segments + segments" using assms(5) by simp
  have q: "0 \<le> ?q" using assms(1,2) by simp
  have rings: "int32 (rings - 2) = rings - 2" using assms(2,3) by (simp add: int32_id)
  have quads: "(k + 1) * segments \<le> ?q" if "0 \<le> k" "k < rings - 2" for k
  proof -
    have "(k + 1) * segments \<le> (rings - 2) * segments"
      using that assms(1) by (intro mult_right_mono) auto
    then show ?thesis by (simp add: algebra_simps)
  qed
  show ?thesis
    unfolding calculate_sphere_faces_def Let_def rings
  proof (rule returns_bind[where P = "face_at ?nl ?np (0 + segments * 3) (0 + segments)"],
      goal_cases)
    case 1
    show ?case
      by (rule returns_face_loop)
         (use assms(1,6,7) nl np q in \<open>auto simp: face_at_def intro: returns_triangle\<close>)
  next
    case (2 st0)
    show ?case
    proof (rule returns_bind[where P = "\<lambda>a. face_at ?nl ?np
               (3 * segments + (rings - 2) * (4 * segments))
               (segments + (rings - 2) * segments) (fst a)"], goal_cases)
      case 1
      show ?case
      proof (rule returns_for_range[where I = "\<lambda>k a. face_at ?nl ?np
                 (3 * segments + k * (4 * segments)) (segments + k * segments) (fst a)"],
          goal_cases)
        case (4 k a)
        obtain st rvs res where a: "a = (st, rvs, res)" by (cases a)
        from 4 a have st: "face_at ?nl ?np (3 * segments + k * (4 * segments))
                                (segments + k * segments) st" by simp
        have nonneg: "0 \<le> k * segments" using 4(1) assms(1) by simp
        show ?case
          unfolding a prod.case
        proof (rule returns_bind[where P = "face_at ?nl ?np
                   (3 * segments + k * (4 * segments) + segments * 4)
                   (segments + k * segments + segments)"], goal_cases)
          case 1
          show ?case
            by (rule returns_face_loop)
               (use st assms(1) nl np quads[OF 4(1,2)] nonneg in
                 \<open>auto simp: algebra_simps intro: returns_quad\<close>)
        next
          case (2 st1)
          then show ?case by (simp add: algebra_simps)
        qed
      qed (use assms 2 in \<open>auto simp: algebra_simps\<close>)
    next
      case (2 a)
      obtain st rvs res where a: "a = (st, rvs, res)" by (cases a)
      from 2 a have st: "face_at ?nl ?np (3 * segments + 4 * ?q) (segments + ?q) st"
        by (simp add: algebra_simps)
      show ?case
        unfolding a prod.case
      proof (rule returns_bind[where P = "face_at ?nl ?np
                   (3 * segments + 4 * ?q + segments * 3) (segments + ?q + segments)"], goal_cases)
        case 1
        show ?case
          by (rule returns_face_loop)
             (use st assms(1) nl np q in \<open>auto intro: returns_triangle\<close>)
      next
        case (2 b)
        then show ?case by (cases b) (auto simp: face_at_def)
      qed
    qed
  qed
qed

lemma returns_push3:
  assumes "at_index n j st" "0 \<le> j" "j + 3 \<le> int n"
  shows "returns (span_push st x1 \<bind> (\<lambda>st. span_push st x2 \<bind> (\<lambda>st. span_push st x3)))
           (at_index n (j + 3))"
  using assms by (cases st) (simp add: span_push_def span_set_def at_index_def int32_id)

lemma returns_push4:
  assumes "at_index n j st" "0 \<le> j" "j + 4 \<le> int n"
  shows "returns (span_push st x1 \<bind> (\<lambda>st. span_push st x2 \<bind> (\<lambda>st. span_push st x3 \<bind>
            (\<lambda>st. span_push st x4)))) (at_index n (j + 4))"
  using assms by (cases st) (simp add: span_push_def span_set_def at_index_def int32_id)

lemma uvs_returns:
  assumes "0 \<le> segments" "2 \<le> rings" "float_round (rings - 2) = rings - 2"
    and "totloop_mesh mesh = 4 * (segments * (rings - 2)) + 6 * segments"
    and "totloop_mesh mesh < 2 ^ 31"
  shows "returns (calculate_sphere_uvs mesh segments rings)
           (\<lambda>mesh'. \<exists>uvs. mesh' = mesh\<lparr> uv_map := Some uvs \<rparr>
                       \<and> int (length uvs) = totloop_mesh mesh)"
proof -
  let ?q = "segments * (rings - 2)"
  let ?n = "nat (totloop_mesh mesh)"
  have q: "0 \<le> ?q" using assms(1,2) by simp
  have tot: "totloop_mesh mesh = 4 * ?q + 3 * segments + 3 * segments"
    using assms(4) by simp
  with q assms(1) have n: "int ?n = 4 * ?q + 3 * segments + 3 * segments" by simp
  have small: "int ?n < 2 ^ 31" using n tot assms(5) by simp
  show ?thesis
    unfolding calculate_sphere_uvs_def attribute_try_get_for_output_only_corner_def Let_def
      assms(3)
  proof (rule returns_bind[where P = "at_index ?n (0 + segments * 3)"], goal_cases)
    case 1
    show ?case
      by (rule returns_push_loop)
         (use assms(1) n q small in \<open>auto simp: at_index_def intro: returns_push3\<close>)
  next
    case (2 st0)
    show ?case
    proof (rule returns_bind[where P = "at_index ?n (0 + segments * 3 + (rings - 2) * (segments * 4))"],
        goal_cases)
      case 1
      show ?case
      proof (rule returns_push_loop[OF 2], goal_cases)
        case (6 k j st)
        show ?case
          by (rule returns_push_loop[where start = 0, simplified])
             (use 6 assms(1) in \<open>auto intro: returns_push4\<close>)
      qed (use assms n in \<open>auto simp: algebra_simps\<close>)
    next
      case (2 st1)
      show ?case
      proof (rule returns_bind[where P = "at_index ?n
                 (0 + segments * 3 + (rings - 2) * (segments * 4) + segments * 3)"], goal_cases)
        case 1
        show ?case
        proof (rule returns_push_loop[OF 2], goal_cases)
          case (6 k j st)
          then show ?case by (auto intro: returns_push3)
        qed (use assms(1,2) n q in \<open>auto simp: algebra_simps\<close>)
      next
        case (2 b)
        then show ?case using tot n by (cases b) (auto simp: at_index_def)
      qed
    qed
  qed
qed

section \<open>The builder inside the range of \<^verbatim>\<open>int\<close> and \<^verbatim>\<open>float\<close>\<close>

text \<open>
  When the corner total, the largest of the four, is below \<open>2 ^ 31\<close>, no operation of the
  four totals wraps around and they are their closed forms.
\<close>

lemma sphere_totals_exact:
  assumes "1 \<le> segments" "2 \<le> rings" "4 * (segments * (rings - 2)) + 6 * segments < 2 ^ 31"
  shows "sphere_vert_total segments rings = segments * (rings - 1) + 2"
    and "sphere_edge_total segments rings = segments * (rings * 2 - 1)"
    and "sphere_corner_total segments rings = 4 * (segments * (rings - 2)) + 6 * segments"
    and "sphere_face_total segments rings = segments * (rings - 2) + 2 * segments"
    and "rings < 2 ^ 31"
proof -
  define q where "q = segments * (rings - 2)"
  have q0: "0 \<le> q" using assms(1,2) by (simp add: q_def)
  have "1 * (rings - 2) \<le> segments * (rings - 2)"
    using assms(1,2) by (intro mult_right_mono) auto
  then have qr: "rings - 2 \<le> q" by (simp add: q_def)
  have small: "4 * q + 6 * segments < 2 ^ 31" using assms(3) by (simp add: q_def)
  show rings: "rings < 2 ^ 31" using qr small assms(1) by simp
  have r1: "int32 (rings - 1) = rings - 1" and r2: "int32 (rings - 2) = rings - 2"
    and r3: "int32 (rings * 2) = rings * 2"
    using assms(1,2) qr small q0 by (simp_all add: int32_id)
  have p1: "segments * (rings - 1) = q + segments"
    and p2: "segments * (rings * 2 - 1) = 2 * q + 3 * segments"
    by (simp_all add: q_def algebra_simps)
  have s4: "int32 (4 * segments) = 4 * segments" and s3: "int32 (3 * segments) = 3 * segments"
    and s2: "int32 (segments * 2) = segments * 2"
    using assms(1) small q0 by (simp_all add: int32_id)
  have p4: "4 * segments * (rings - 2) = 4 * q" by (simp add: q_def)
  have i1: "int32 (q + segments) = q + segments"
    and i2: "int32 (q + segments + 2) = q + segments + 2"
    and i3: "int32 (2 * q + 3 * segments - 1) = 2 * q + 3 * segments - 1"
    and i4: "int32 (2 * q + 3 * segments) = 2 * q + 3 * segments"
    and i5: "int32 (4 * q) = 4 * q" and i6: "int32 (3 * segments * 2) = 3 * segments * 2"
    and i7: "int32 (4 * q + 3 * segments * 2) = 4 * q + 3 * segments * 2"
    and i8: "int32 q = q" and i9: "int32 (q + segments * 2) = q + segments * 2"
    and i10: "int32 (rings * 2 - 1) = rings * 2 - 1"
    using assms(1,2) small q0 qr by (simp_all add: int32_id)
  show "sphere_vert_total segments rings = segments * (rings - 1) + 2"
    by (simp add: sphere_vert_total_def r1 p1 i1 i2)
  show "sphere_edge_total segments rings = segments * (rings * 2 - 1)"
    by (simp add: sphere_edge_total_def r3 i10 p2 i4)
  show "sphere_corner_total segments rings = 4 * (segments * (rings - 2)) + 6 * segments"
    unfolding sphere_corner_total_def Let_def s4 r2 p4 i5 s3 i6 i7 by (simp add: q_def)
  show "sphere_face_total segments rings = segments * (rings - 2) + 2 * segments"
    unfolding sphere_face_total_def Let_def r2 s2 q_def[symmetric] i8 i9 by simp
qed

lemma create_uv_sphere_mesh_Release:
  assumes "1 \<le> segments" "2 \<le> rings" "segments \<le> 2 ^ 24" "rings \<le> 2 ^ 24"
    and "4 * (segments * (rings - 2)) + 6 * segments < 2 ^ 31"
  shows "returns (create_uv_sphere_mesh Release is_valid radius segments rings)
           (\<lambda>mesh. totvert mesh = segments * (rings - 1) + 2
                 \<and> totedge mesh = segments * (rings * 2 - 1)
                 \<and> totpoly mesh = segments * (rings - 2) + 2 * segments
                 \<and> totloop_mesh mesh = 4 * (segments * (rings - 2)) + 6 * segments
                 \<and> int (length (mvert mesh)) = totvert mesh
                 \<and> int (length (medge mesh)) = totedge mesh
                 \<and> int (length (mpoly mesh)) = totpoly mesh
                 \<and> int (length (mloop mesh)) = totloop_mesh mesh)"
proof -
  let ?q = "segments * (rings - 2)"
  note totals = sphere_totals_exact[OF assms(1,2,5)]
  have seg: "0 \<le> segments" using assms(1) by simp
  have q: "0 \<le> ?q" using assms(1,2) by simp
  have p1: "segments * (rings - 1) = ?q + segments"
    and p2: "segments * (rings * 2 - 1) = 2 * ?q + 3 * segments"
    by (simp_all add: algebra_simps)
  have nv: "0 \<le> segments * (rings - 1) + 2" "segments * (rings - 1) + 2 < 2 ^ 31"
    and ne: "0 \<le> segments * (rings * 2 - 1)" "segments * (rings * 2 - 1) < 2 ^ 31"
    and nc: "0 \<le> 4 * ?q + 6 * segments"
    and nf: "0 \<le> ?q + 2 * segments" "?q + 2 * segments < 2 ^ 31"
    unfolding p1 p2 using q seg assms(5) by simp_all
  have fs: "float_round segments = segments" and fr: "float_round rings = rings"
    and fr2: "float_round (rings - 2) = rings - 2"
    using assms(1-4) by (simp_all add: float_round_exact)
  show ?thesis
    unfolding create_uv_sphere_mesh_def Let_def totals(1-4) fs fr
  proof (rule returns_bind[OF vertex_data_returns], goal_cases)
    case (6 verts)
    show ?case
    proof (rule returns_bind[OF edge_indices_returns], goal_cases)
      case (6 edges)
      show ?case
      proof (rule returns_bind[OF faces_returns], goal_cases)
        case (8 a)
        obtain loops polys where a: "a = (loops, polys)" by (cases a)
        show ?case
          unfolding a prod.case
        proof (rule returns_bind[OF uvs_returns], goal_cases)
          case (6 mesh)
          then show ?case
            using 8 a \<open>length verts = _\<close> \<open>length edges = _\<close> nv ne nc nf
            by (auto simp: BKE_mesh_new_nomain_def BLI_assert_def)
        qed (use assms fr2 nc in \<open>auto simp: BKE_mesh_new_nomain_def\<close>)
      qed (use assms totals(5) nc nf in \<open>auto simp: BKE_mesh_new_nomain_def\<close>)
    qed (use assms totals(5) ne in \<open>auto simp: BKE_mesh_new_nomain_def\<close>)
  qed (use assms totals(5) nv in \<open>auto simp: BKE_mesh_new_nomain_def\<close>)
qed

text \<open>
  A debug build returns the same mesh as a release build, provided that the assertion on
  the validity of the mesh holds.
\<close>

lemma create_uv_sphere_mesh_Debug:
  "create_uv_sphere_mesh Debug is_valid radius segments rings =
     create_uv_sphere_mesh Release is_valid radius segments rings
       \<bind> (\<lambda>mesh. if is_valid mesh then Some mesh else None)"
proof -
  have debug: "BLI_assert Debug c \<bind> (\<lambda>_. Some x) = (if c then Some x else None)"
    for c and x :: Mesh
    by (simp add: BLI_assert_def)
  have release: "BLI_assert Release c \<bind> (\<lambda>_. Some x) = Some x" for c and x :: Mesh
    by (simp add: BLI_assert_def)
  show ?thesis
    by (simp add: create_uv_sphere_mesh_def Let_def split_def debug release)
qed

section \<open>Loops that run past the end of a span\<close>

lemma for_each_fails:
  assumes "I 0 s"
    and "\<And>k s. k < length xs \<Longrightarrow> I k s \<Longrightarrow>
           body (xs ! k) s = None \<or> (\<exists>s'. body (xs ! k) s = Some s' \<and> I (Suc k) s')"
    and "\<And>s. \<not> I (length xs) s"
  shows "for_each xs body s = None"
  using assms
proof (induction xs arbitrary: s I)
  case Nil
  then show ?case by auto
next
  case (Cons x xs)
  from Cons.prems(2)[of 0 s] Cons.prems(1)
  consider "body x s = None" | s1 where "body x s = Some s1" "I (Suc 0) s1" by auto
  then show ?case
  proof cases
    case 1
    then show ?thesis by simp
  next
    case 2
    have "for_each xs body s1 = None"
    proof (rule Cons.IH[of "\<lambda>k. I (Suc k)"])
      show "I (Suc 0) s1" by (rule 2(2))
    next
      fix k s assume "k < length xs" "I (Suc k) s"
      with Cons.prems(2)[of "Suc k" s]
      show "body (xs ! k) s = None \<or> (\<exists>s'. body (xs ! k) s = Some s' \<and> I (Suc (Suc k)) s')"
        by simp
    next
      fix s show "\<not> I (Suc (length xs)) s" using Cons.prems(3)[of s] by simp
    qed
    with 2(1) show ?thesis by simp
  qed
qed

lemma for_range_first_fails:
  assumes "0 \<le> start" "0 < len" "body start s = None"
  shows "for_range start len body s = None"
proof -
  have "[start..start + len - 1] = start # [start + 1..start + len - 1]"
    using assms(2) by (simp add: upto_rec1)
  with assms show ?thesis by (simp add: for_range_def)
qed

text \<open>
  A loop whose every iteration advances the running index by \<open>c\<close>, and whose iterations
  together advance it past the end of the span.
\<close>

lemma for_range_overruns:
  fixes st :: "'a list \<times> int"
  assumes "at_index n i st" and "0 \<le> start" and "0 \<le> len" and "0 \<le> c" and "0 \<le> i"
    and "i \<le> int n" and "int n < i + len * c"
    and body: "\<And>k j st. at_index n j st \<Longrightarrow> 0 \<le> j \<Longrightarrow> j + c \<le> int n \<Longrightarrow>
                 returns (body (start + k) st) (at_index n (j + c))"
    and fail: "\<And>k j st. at_index n j st \<Longrightarrow> 0 \<le> j \<Longrightarrow> int n < j + c \<Longrightarrow>
                 body (start + k) st = None"
  shows "for_range start len body st = None"
proof -
  let ?xs = "[start..start + len - 1]"
  let ?I = "\<lambda>k s. at_index n (i + int k * c) s \<and> i + int k * c \<le> int n"
  have len: "int (length ?xs) = len" using assms(3) by simp
  have "for_each ?xs body st = None"
  proof (rule for_each_fails[of ?I])
    show "?I 0 st" using assms(1,6) by simp
  next
    fix k and s :: "'a list \<times> int"
    assume k: "k < length ?xs" and s: "?I k s"
    have xs: "?xs ! k = start + int k" using k by simp
    have j: "0 \<le> i + int k * c" using assms(4,5) by simp
    show "body (?xs ! k) s = None \<or> (\<exists>s'. body (?xs ! k) s = Some s' \<and> ?I (Suc k) s')"
    proof (cases "i + int k * c + c \<le> int n")
      case True
      from body[OF _ j True, of s "int k"] s
      have "returns (body (start + int k) s) (at_index n (i + int k * c + c))" by simp
      with True show ?thesis unfolding xs by (auto simp: returns_iff algebra_simps)
    next
      case False
      with fail[OF _ j, of s "int k"] s show ?thesis unfolding xs by simp
    qed
  next
    fix s show "\<not> ?I (length ?xs) s" using assms(7) unfolding len by simp
  qed
  with assms(2,3) show ?thesis by (simp add: for_range_def)
qed

lemma span_push_overruns:
  assumes "at_index n j st" "int n \<le> j"
  shows "span_push st x = None"
  using assms by (cases st) (simp add: span_push_def span_set_def at_index_def)


text \<open>
  The vertex pass on a span of two vertices: the first ring has no place for its second
  vertex.
\<close>

lemma vertex_data_overruns:
  assumes "length verts = 2" "2 \<le> segments" "1 \<le> int32 (rings - 1)"
  shows "calculate_sphere_vertex_data verts radius segments rings = None"
proof -
  have inner: "for_range 1 segments (\<lambda>segment st. span_push st (x segment)) (vs, 1) = None"
    if "length vs = 2" for vs :: "MVert list" and x
  proof (rule for_range_overruns[where n = 2 and i = 1 and c = 1])
    show "at_index 2 1 (vs, 1)" using that by (simp add: at_index_def)
  qed (use assms(2) in \<open>auto intro: returns_span_push span_push_overruns\<close>)
  show ?thesis
    using assms(1,3)
    by (simp add: calculate_sphere_vertex_data_def Let_def span_set_def
        for_range_first_fails inner)
qed


section \<open>Element totals of the UV-sphere builder\<close>

text \<open>
  The range that the node declares for its two integer sockets lies inside the range in
  which the totals do not wrap around.
\<close>

lemma declared_range_fits:
  fixes segments rings :: int
  assumes "3 \<le> segments" "segments \<le> 1024" "2 \<le> rings" "rings \<le> 1024"
  shows "4 * (segments * (rings - 2)) + 6 * segments < 2 ^ 31"
proof -
  have "segments * (rings - 2) \<le> 1024 * 1022"
    using assms by (intro mult_mono) auto
  with assms(2) show ?thesis by simp
qed

text \<open>
  C1, as stated: with 32 segments and 16 rings the builder would produce 480 faces, and the
  closed forms would be the totals for every \<open>segments \<ge> 3\<close> and \<open>rings \<ge> 3\<close>.
  The builder produces 512 faces: the face total is \<open>32 * 14 + 32 * 2 = 512\<close>.  The totals
  are computed in \<^verbatim>\<open>int\<close>: with 65536 segments and 65537 rings the vertex total is 2 instead
  of \<open>65536 * 65536 + 2\<close>, and the vertex pass runs past the end of the two vertices.
\<close>

theorem uv_sphere_512_faces_and_wrapped_totals:
  "map_option totpoly (create_uv_sphere_mesh Release mesh_arrays_match f_one 32 16) = Some 512
   \<and> map_option (length \<circ> mpoly) (create_uv_sphere_mesh Release mesh_arrays_match f_one 32 16)
       = Some 512
   \<and> sphere_face_total 32 16 \<noteq> 480
   \<and> sphere_vert_total 65536 65537 = 2
   \<and> create_uv_sphere_mesh Release mesh_arrays_match f_one 65536 65537 = None"
proof -
  have "returns (create_uv_sphere_mesh Release mesh_arrays_match f_one 32 16)
          (\<lambda>mesh. totpoly mesh = 512 \<and> int (length (mpoly mesh)) = 512)"
    by (rule returns_weaken[OF create_uv_sphere_mesh_Release]) simp_all
  then have faces:
    "map_option totpoly (create_uv_sphere_mesh Release mesh_arrays_match f_one 32 16) = Some 512"
    "map_option (length \<circ> mpoly) (create_uv_sphere_mesh Release mesh_arrays_match f_one 32 16)
       = Some 512"
    by (auto simp: returns_iff)
  have total: "sphere_vert_total 65536 65537 = 2"
    by (simp add: sphere_vert_total_def int32_def)
  have "calculate_sphere_vertex_data
          (mvert (BKE_mesh_new_nomain 2 e t l p\<lparr> default_material_slot := True \<rparr>))
          f_one 65536 65537 = None" for e t l p
    by (rule vertex_data_overruns) (simp_all add: BKE_mesh_new_nomain_def int32_def)
  then have "create_uv_sphere_mesh Release mesh_arrays_match f_one 65536 65537 = None"
    by (simp add: create_uv_sphere_mesh_def Let_def total)
  with faces total show ?thesis
    by (simp add: sphere_face_total_def int32_def)
qed

text \<open>
  C1, amended: for at least 3 segments and at least 3 rings, both at most \<open>2 ^ 24\<close> (so that
  their conversion to \<^verbatim>\<open>float\<close> is exact) and with a corner total
  \<open>4 * segments * (rings - 2) + 6 * segments\<close> below \<open>2 ^ 31\<close> (so that no total wraps
  around), the builder returns a mesh with \<open>segments * (rings - 1) + 2\<close> vertices,
  \<open>segments * (2 * rings - 1)\<close> edges and \<open>segments * (rings - 2) + segments * 2\<close> faces,
  which are the totals that the mesh was allocated with; a debug build returns it when the
  final validity assertion holds.  For 32 segments and 16 rings these are 482 vertices,
  992 edges and 512 faces.
\<close>

theorem uv_sphere_element_totals:
  "(3 \<le> segments \<and> 3 \<le> rings \<and> segments \<le> 2 ^ 24 \<and> rings \<le> 2 ^ 24
      \<and> 4 * (segments * (rings - 2)) + 6 * segments < 2 ^ 31 \<longrightarrow>
      (\<exists>mesh. create_uv_sphere_mesh Release is_valid radius segments rings = Some mesh
         \<and> create_uv_sphere_mesh Debug is_valid radius segments rings
             = (if is_valid mesh then Some mesh else None)
         \<and> int (length (mvert mesh)) = segments * (rings - 1) + 2
         \<and> int (length (medge mesh)) = segments * (2 * rings - 1)
         \<and> int (length (mpoly mesh)) = segments * (rings - 2) + segments * 2
         \<and> totvert mesh = sphere_vert_total segments rings
         \<and> totedge mesh = sphere_edge_total segments rings
         \<and> totpoly mesh = sphere_face_total segments rings))
   \<and> sphere_vert_total 32 16 = 482 \<and> sphere_edge_total 32 16 = 992
   \<and> sphere_face_total 32 16 = 512"
proof (intro conjI impI)
  assume bounds: "3 \<le> segments \<and> 3 \<le> rings \<and> segments \<le> 2 ^ 24 \<and> rings \<le> 2 ^ 24
      \<and> 4 * (segments * (rings - 2)) + 6 * segments < 2 ^ 31"
  then have b: "1 \<le> segments" "2 \<le> rings" "segments \<le> 2 ^ 24" "rings \<le> 2 ^ 24"
    "4 * (segments * (rings - 2)) + 6 * segments < 2 ^ 31"
    by simp_all
  note totals = sphere_totals_exact[OF b(1,2,5)]
  from create_uv_sphere_mesh_Release[OF b, of is_valid radius]
  obtain mesh where mesh: "create_uv_sphere_mesh Release is_valid radius segments rings = Some mesh"
    and tot: "totvert mesh = segments * (rings - 1) + 2"
      "totedge mesh = segments * (rings * 2 - 1)"
      "totpoly mesh = segments * (rings - 2) + 2 * segments"
    and len: "int (length (mvert mesh)) = totvert mesh" "int (length (medge mesh)) = totedge mesh"
      "int (length (mpoly mesh)) = totpoly mesh"
    by (auto simp: returns_iff)
  have "create_uv_sphere_mesh Debug is_valid radius segments rings
          = (if is_valid mesh then Some mesh else None)"
    by (simp add: create_uv_sphere_mesh_Debug mesh)
  with mesh tot len
  show "\<exists>mesh. create_uv_sphere_mesh Release is_valid radius segments rings = Some mesh
         \<and> create_uv_sphere_mesh Debug is_valid radius segments rings
             = (if is_valid mesh then Some mesh else None)
         \<and> int (length (mvert mesh)) = segments * (rings - 1) + 2
         \<and> int (length (medge mesh)) = segments * (2 * rings - 1)
         \<and> int (length (mpoly mesh)) = segments * (rings - 2) + segments * 2
         \<and> totvert mesh = sphere_vert_total segments rings
         \<and> totedge mesh = sphere_edge_total segments rings
         \<and> totpoly mesh = sphere_face_total segments rings"
    by (intro exI[of _ mesh]) (simp add: totals(1,2,4) mult.commute)
qed (simp_all add: sphere_vert_total_def sphere_edge_total_def sphere_face_total_def int32_def)

theorem uv_sphere_element_totals_witness:
  "(3::int) \<le> 32 \<and> (3::int) \<le> 16 \<and> (32::int) \<le> 2 ^ 24 \<and> (16::int) \<le> 2 ^ 24
   \<and> (4::int) * (32 * (16 - 2)) + 6 * 32 < 2 ^ 31
   \<and> (\<exists>mesh. create_uv_sphere_mesh Release mesh_arrays_match f_one 32 16 = Some mesh
         \<and> create_uv_sphere_mesh Debug mesh_arrays_match f_one 32 16 = Some mesh
         \<and> length (mvert mesh) = 482 \<and> length (medge mesh) = 992 \<and> length (mpoly mesh) = 512)"
proof -
  from uv_sphere_element_totals[of 32 16 mesh_arrays_match f_one]
  obtain mesh where mesh: "create_uv_sphere_mesh Release mesh_arrays_match f_one 32 16 = Some mesh"
    and dbg: "create_uv_sphere_mesh Debug mesh_arrays_match f_one 32 16
             = (if mesh_arrays_match mesh then Some mesh else None)"
    and len: "int (length (mvert mesh)) = 32 * (16 - 1) + 2"
      "int (length (medge mesh)) = 32 * (2 * 16 - 1)"
      "int (length (mpoly mesh)) = 32 * (16 - 2) + 32 * 2"
    by auto
  have "returns (create_uv_sphere_mesh Release mesh_arrays_match f_one 32 16) mesh_arrays_match"
    by (rule returns_weaken[OF create_uv_sphere_mesh_Release])
       (simp_all add: mesh_arrays_match_def)
  with mesh have "mesh_arrays_match mesh" by simp
  with mesh dbg len show ?thesis by auto
qed

section \<open>Invocations of the UV-sphere node\<close>

text \<open>The steps of an invocation of the node whose inputs carry values of the declared types.\<close>

lemma extract_segments:
  "extract_input ext (uv_sphere_params segments rings radius log) ''Segments'' CPP_int =
     Some (V_int segments,
       \<lparr> dnode = uv_sphere_node, logger = log,
         input_values = [(''Rings'', V_int rings), (''Radius'', V_float radius)],
         output_values = [] \<rparr>)"
  by (simp add: extract_input_def get_input_def check_input_access_def uv_sphere_params_def
      uv_sphere_node_def node_of_declaration_def geo_node_mesh_primitive_uv_shpere_declare_def
      socket_of_declaration_def can_get_input_def)

lemma extract_rings:
  "extract_input ext
     \<lparr> dnode = uv_sphere_node, logger = log,
       input_values = [(''Rings'', V_int rings), (''Radius'', V_float radius)],
       output_values = [] \<rparr> ''Rings'' CPP_int =
     Some (V_int rings,
       \<lparr> dnode = uv_sphere_node, logger = log,
         input_values = [(''Radius'', V_float radius)], output_values = [] \<rparr>)"
  by (simp add: extract_input_def get_input_def check_input_access_def
      uv_sphere_node_def node_of_declaration_def geo_node_mesh_primitive_uv_shpere_declare_def
      socket_of_declaration_def can_get_input_def)

lemma extract_radius:
  "extract_input ext
     \<lparr> dnode = uv_sphere_node, logger = log,
       input_values = [(''Radius'', V_float radius)], output_values = [] \<rparr> ''Radius'' CPP_float =
     Some (V_float radius,
       \<lparr> dnode = uv_sphere_node, logger = log, input_values = [], output_values = [] \<rparr>)"
  by (simp add: extract_input_def get_input_def check_input_access_def
      uv_sphere_node_def node_of_declaration_def geo_node_mesh_primitive_uv_shpere_declare_def
      socket_of_declaration_def can_get_input_def)

lemma set_output_mesh:
  "set_output ext
     \<lparr> dnode = uv_sphere_node, logger = log, input_values = ins, output_values = [] \<rparr>
     ''Mesh'' (V_geometry geometry_set) =
     Some \<lparr> dnode = uv_sphere_node, logger = log, input_values = ins,
            output_values = [(''Mesh'', V_geometry geometry_set)] \<rparr>"
  by (simp add: set_output_def check_output_access_def
      uv_sphere_node_def node_of_declaration_def geo_node_mesh_primitive_uv_shpere_declare_def
      socket_of_declaration_def can_set_output_def)

lemma uv_sphere_exec_invalid:
  assumes "segments < 3 \<or> rings < 2"
  shows "geo_node_mesh_primitive_uv_sphere_exec build ext
           (uv_sphere_params segments rings radius (Some log)) =
     Some \<lparr> dnode = uv_sphere_node,
            logger = Some (log
              @ (if segments < 3
                 then [\<lparr> warning_node = uv_sphere_node, warning_type = Info,
                         warning_message = ''Segments must be at least 3'' \<rparr>] else [])
              @ (if rings < 3
                 then [\<lparr> warning_node = uv_sphere_node, warning_type = Info,
                         warning_message = ''Rings must be at least 3'' \<rparr>] else [])),
            input_values = [(''Radius'', V_float radius)],
            output_values = [(''Mesh'', V_geometry (GeometrySet []))] \<rparr>"
  using assms
  by (simp add: geo_node_mesh_primitive_uv_sphere_exec_def extract_segments extract_rings
      error_message_add_def TIP_def set_output_mesh Let_def)

lemma uv_sphere_exec_invalid_no_logger:
  assumes "segments < 3 \<or> rings < 2"
  shows "geo_node_mesh_primitive_uv_sphere_exec build ext
           (uv_sphere_params segments rings radius None) =
     Some \<lparr> dnode = uv_sphere_node, logger = None,
            input_values = [(''Radius'', V_float radius)],
            output_values = [(''Mesh'', V_geometry (GeometrySet []))] \<rparr>"
  using assms
  by (simp add: geo_node_mesh_primitive_uv_sphere_exec_def extract_segments extract_rings
      error_message_add_def TIP_def set_output_mesh Let_def)

lemma uv_sphere_exec_valid:
  assumes "\<not> (segments < 3 \<or> rings < 2)"
  shows "geo_node_mesh_primitive_uv_sphere_exec build ext
           (uv_sphere_params segments rings radius log) =
     create_uv_sphere_mesh build (BKE_mesh_is_valid ext) radius segments rings \<bind> (\<lambda>mesh.
       Some \<lparr> dnode = uv_sphere_node, logger = log, input_values = [],
              output_values = [(''Mesh'', V_geometry (create_with_mesh mesh))] \<rparr>)"
  using assms
  by (simp add: geo_node_mesh_primitive_uv_sphere_exec_def extract_segments extract_rings
      extract_radius set_output_mesh Let_def)

text \<open>
  C3: with 2 segments and the default 16 rings the node sets the output \<open>Mesh\<close> to the empty
  geometry set and returns before the radius is read and a mesh is built; with a logger
  attached it logs exactly one diagnostic, of severity Info, with the message
  "Segments must be at least 3".  The result is not the one for 3 segments: the value is
  not clamped.
\<close>

theorem uv_sphere_two_segments:
  "geo_node_mesh_primitive_uv_sphere_exec build ext (uv_sphere_params 2 16 radius (Some log)) =
     Some \<lparr> dnode = uv_sphere_node,
            logger = Some (log @ [\<lparr> warning_node = uv_sphere_node, warning_type = Info,
                                    warning_message = ''Segments must be at least 3'' \<rparr>]),
            input_values = [(''Radius'', V_float radius)],
            output_values = [(''Mesh'', V_geometry (GeometrySet []))] \<rparr>
   \<and> geo_node_mesh_primitive_uv_sphere_exec build ext (uv_sphere_params 2 16 radius (Some log))
       \<noteq> geo_node_mesh_primitive_uv_sphere_exec build ext (uv_sphere_params 3 16 radius (Some log))"
proof -
  have invalid: "geo_node_mesh_primitive_uv_sphere_exec build ext
           (uv_sphere_params 2 16 radius (Some log)) =
     Some \<lparr> dnode = uv_sphere_node,
            logger = Some (log @ [\<lparr> warning_node = uv_sphere_node, warning_type = Info,
                                    warning_message = ''Segments must be at least 3'' \<rparr>]),
            input_values = [(''Radius'', V_float radius)],
            output_values = [(''Mesh'', V_geometry (GeometrySet []))] \<rparr>"
    using uv_sphere_exec_invalid[of 2 16 build ext radius log] by simp
  have "geo_node_mesh_primitive_uv_sphere_exec build ext (uv_sphere_params 3 16 radius (Some log))
          = create_uv_sphere_mesh build (BKE_mesh_is_valid ext) radius 3 16 \<bind> (\<lambda>mesh.
       Some \<lparr> dnode = uv_sphere_node, logger = Some log, input_values = [],
              output_values = [(''Mesh'', V_geometry (create_with_mesh mesh))] \<rparr>)"
    by (rule uv_sphere_exec_valid) simp
  then have "geo_node_mesh_primitive_uv_sphere_exec build ext
               (uv_sphere_params 3 16 radius (Some log))
          \<noteq> geo_node_mesh_primitive_uv_sphere_exec build ext
               (uv_sphere_params 2 16 radius (Some log))"
    unfolding invalid
    by (cases "create_uv_sphere_mesh build (BKE_mesh_is_valid ext) radius 3 16") simp_all
  with invalid show ?thesis by simp
qed





section \<open>Diagnostics of a geometry input\<close>

lemma unsupported_type_message_eq:
  "type \<noteq> GEO_COMPONENT_TYPE_INSTANCES \<Longrightarrow>
     unsupported_type_message build type =
       Some (''Input geometry has unsupported type: '' @ geometry_type_name type)"
  by (cases type) (simp_all add: unsupported_type_message_def TIP_def)

lemma error_message_add_logger:
  "logger params = Some log \<Longrightarrow>
     error_message_add params type message =
       params\<lparr> logger := Some (log @ [\<lparr> warning_node = dnode params, warning_type = type,
                                         warning_message = message \<rparr>]) \<rparr>"
  by (simp add: error_message_add_def)

lemma error_message_add_no_logger:
  "logger params = None \<Longrightarrow> error_message_add params type message = params"
  by (simp add: error_message_add_def)

lemma unsupported_loop:
  assumes "logger params = Some log"
  shows "for_each types (\<lambda>type params.
           if type = GEO_COMPONENT_TYPE_INSTANCES then Some params
           else if type \<in> set supported then Some params
           else unsupported_type_message build type \<bind> (\<lambda>message.
                  Some (error_message_add params Info message))) params =
         Some (params\<lparr> logger := Some (log @ map (unsupported_type_warning (dnode params))
                 (filter (\<lambda>type. type \<noteq> GEO_COMPONENT_TYPE_INSTANCES \<and> type \<notin> set supported)
                    types)) \<rparr>)"
  using assms
proof (induction types arbitrary: params log)
  case Nil
  then show ?case by simp
next
  case (Cons type types)
  show ?case
  proof (cases "type \<noteq> GEO_COMPONENT_TYPE_INSTANCES \<and> type \<notin> set supported")
    case True
    let ?w = "unsupported_type_warning (dnode params) type"
    let ?params = "params\<lparr> logger := Some (log @ [?w]) \<rparr>"
    have "logger ?params = Some (log @ [?w])" by simp
    from Cons.IH[OF this] True Cons.prems show ?thesis
      by (simp add: unsupported_type_message_eq error_message_add_logger
          unsupported_type_warning_def info_warning_def)
  next
    case False
    with Cons.IH[OF Cons.prems] show ?thesis by auto
  qed
qed

lemma check_input_geometry_set_eq:
  assumes "input_by_identifier (dnode params) identifier = Some socket"
    and "kind (sock_declaration socket) = decl_Geometry realized instances supported"
    and "logger params = Some log"
  shows "check_input_geometry_set build ext params identifier geometry_set =
     Some (params\<lparr> logger := Some (log
       @ (if realized \<and> has_instances geometry_set
          then [info_warning (dnode params) ''Instances in input geometry are ignored''] else [])
       @ (if instances \<and> has_realized_data geometry_set
          then [info_warning (dnode params) ''Realized data in input geometry is ignored'']
          else [])
       @ map (unsupported_type_warning (dnode params))
           (filter (\<lambda>type. type \<noteq> GEO_COMPONENT_TYPE_INSTANCES \<and> type \<notin> set supported)
              (if supported = [] then []
               else gather_component_types ext geometry_set True True))) \<rparr>)"
proof -
  let ?a = "if realized \<and> has_instances geometry_set
          then [info_warning (dnode params) ''Instances in input geometry are ignored''] else []"
  let ?b = "if instances \<and> has_realized_data geometry_set
          then [info_warning (dnode params) ''Realized data in input geometry is ignored'']
          else []"
  let ?p1 = "if realized then
            (if has_instances geometry_set
             then error_message_add params Info (TIP ''Instances in input geometry are ignored'')
             else params)
          else params"
  let ?p2 = "if instances then
            (if has_realized_data geometry_set
             then error_message_add ?p1 Info (TIP ''Realized data in input geometry is ignored'')
             else ?p1)
          else ?p1"
  have p1: "?p1 = params\<lparr> logger := Some (log @ ?a) \<rparr>"
    using assms(3) by (simp add: error_message_add_logger info_warning_def TIP_def)
  have p2: "?p2 = params\<lparr> logger := Some (log @ ?a @ ?b) \<rparr>"
    unfolding p1 by (simp add: error_message_add_logger info_warning_def TIP_def)
  have log2: "logger ?p2 = Some (log @ ?a @ ?b)" and node2: "dnode ?p2 = dnode params"
    unfolding p2 by simp_all
  show ?thesis
  proof (cases "supported = []")
    case True
    then show ?thesis
      using assms(1,2) p2 by (simp add: check_input_geometry_set_def Let_def)
  next
    case False
    have "check_input_geometry_set build ext params identifier geometry_set =
            for_each (gather_component_types ext geometry_set True True) (\<lambda>type params.
              if type = GEO_COMPONENT_TYPE_INSTANCES then Some params
              else if type \<in> set supported then Some params
              else unsupported_type_message build type \<bind> (\<lambda>message.
                     Some (error_message_add params Info message))) ?p2"
      using assms(1,2) False by (simp add: check_input_geometry_set_def Let_def cong: if_cong)
    also have "\<dots> = Some (?p2\<lparr> logger := Some ((log @ ?a @ ?b)
                 @ map (unsupported_type_warning (dnode ?p2))
                 (filter (\<lambda>type. type \<noteq> GEO_COMPONENT_TYPE_INSTANCES \<and> type \<notin> set supported)
                    (gather_component_types ext geometry_set True True))) \<rparr>)"
      by (rule unsupported_loop[OF log2])
    finally show ?thesis using False unfolding node2 by (simp add: p2)
  qed
qed

lemma example_input_geometry:
  "input_by_identifier (dnode (example_params geometry_set attribute_name count log)) ''Geometry''
     = Some (socket_of_declaration \<lparr> decl_name = ''Geometry'', decl_description = [],
                                     kind = decl_Geometry True False [] \<rparr>)"
  by (simp add: input_by_identifier_def example_params_def node_of_declaration_def
      example_declaration_def socket_of_declaration_def)

lemma example_input_target:
  "input_by_identifier (dnode (example_params geometry_set attribute_name count log)) ''Target''
     = Some (socket_of_declaration \<lparr> decl_name = ''Target'', decl_description = [],
                                     kind = decl_Geometry False False [GEO_COMPONENT_TYPE_MESH] \<rparr>)"
  by (simp add: input_by_identifier_def example_params_def node_of_declaration_def
      example_declaration_def socket_of_declaration_def)

lemma example_params_logger:
  "(example_params geometry_set attribute_name count log)\<lparr> logger := log' \<rparr>
     = example_params geometry_set attribute_name count log'"
  by (simp add: example_params_def)

lemma unsupported_loop_no_logger:
  assumes "logger params = None"
  shows "for_each types (\<lambda>type params.
           if type = GEO_COMPONENT_TYPE_INSTANCES then Some params
           else if type \<in> set supported then Some params
           else unsupported_type_message build type \<bind> (\<lambda>message.
                  Some (error_message_add params Info message))) params = Some params"
proof (induction types)
  case Nil
  show ?case by simp
next
  case (Cons type types)
  then show ?case
    using assms
    by (cases "type = GEO_COMPONENT_TYPE_INSTANCES")
       (simp_all add: unsupported_type_message_eq error_message_add_no_logger)
qed

lemma check_input_geometry_set_no_logger:
  assumes "input_by_identifier (dnode params) identifier = Some socket"
    and "logger params = None"
  shows "check_input_geometry_set build ext params identifier geometry_set = Some params"
  using assms unsupported_loop_no_logger[OF assms(2)]
  by (simp add: check_input_geometry_set_def Let_def error_message_add_no_logger cong: if_cong)

lemma check_input_geometry_set_other_declaration:
  assumes "input_by_identifier (dnode params) identifier = Some socket"
    and "\<not> is_decl_Geometry (kind (sock_declaration socket))"
  shows "check_input_geometry_set build ext params identifier geometry_set = Some params"
  using assms by (simp add: check_input_geometry_set_def Let_def)

text \<open>
  C4: the check of an input returns in every build (it never halts) and changes nothing but
  the log.  For a geometry input and with a logger attached, it logs the warnings of its
  three conditions, each decided on its own; all of them have the severity Info.  For a
  geometry with exactly a mesh and an instances component and a declaration with only
  \<open>only_realized_data\<close> set, it logs exactly the warning that instances are ignored.
\<close>

theorem geometry_input_checks_are_independent:
  assumes "input_by_identifier (dnode params) identifier = Some socket"
  shows "(\<exists>log'. check_input_geometry_set build ext params identifier geometry_set =
                   Some (params\<lparr> logger := log' \<rparr>))
     \<and> (kind (sock_declaration socket) = decl_Geometry realized instances supported
          \<and> logger params = Some log \<longrightarrow>
        check_input_geometry_set build ext params identifier geometry_set =
           Some (params\<lparr> logger := Some (log @ geometry_input_warnings ext (dnode params)
                   realized instances supported geometry_set) \<rparr>)
        \<and> (\<forall>w \<in> set (geometry_input_warnings ext (dnode params) realized instances supported
                         geometry_set). warning_type w = Info)
        \<and> (realized \<and> \<not> instances \<and> supported = []
             \<and> set (map component_type (components geometry_set))
                 = {GEO_COMPONENT_TYPE_MESH, GEO_COMPONENT_TYPE_INSTANCES} \<longrightarrow>
           geometry_input_warnings ext (dnode params) realized instances supported geometry_set
             = [info_warning (dnode params) ''Instances in input geometry are ignored'']))"
proof (intro conjI impI ballI)
  show "\<exists>log'. check_input_geometry_set build ext params identifier geometry_set =
                   Some (params\<lparr> logger := log' \<rparr>)"
  proof (cases "logger params")
    case None
    from check_input_geometry_set_no_logger[OF assms None, of build ext geometry_set]
    show ?thesis by (intro exI[of _ "logger params"]) simp
  next
    case (Some log)
    show ?thesis
    proof (cases "kind (sock_declaration socket)")
      case (decl_Geometry r i ts)
      from check_input_geometry_set_eq[OF assms decl_Geometry Some, of build ext geometry_set]
      show ?thesis by blast
    qed (use check_input_geometry_set_other_declaration[OF assms, of build ext geometry_set]
          in \<open>auto intro!: exI[of _ "logger params"]\<close>)
  qed
next
  assume "kind (sock_declaration socket) = decl_Geometry realized instances supported
          \<and> logger params = Some log"
  then show "check_input_geometry_set build ext params identifier geometry_set =
           Some (params\<lparr> logger := Some (log @ geometry_input_warnings ext (dnode params)
                   realized instances supported geometry_set) \<rparr>)"
    unfolding geometry_input_warnings_def using check_input_geometry_set_eq[OF assms] by simp
next
  fix w
  assume "w \<in> set (geometry_input_warnings ext (dnode params) realized instances supported
                      geometry_set)"
  then show "warning_type w = Info"
    by (auto simp: geometry_input_warnings_def info_warning_def unsupported_type_warning_def
        split: if_splits)
next
  assume h: "realized \<and> \<not> instances \<and> supported = []
          \<and> set (map component_type (components geometry_set))
              = {GEO_COMPONENT_TYPE_MESH, GEO_COMPONENT_TYPE_INSTANCES}"
  have "has_instances geometry_set
          \<longleftrightarrow> GEO_COMPONENT_TYPE_INSTANCES \<in> set (map component_type (components geometry_set))"
    by (force simp: has_instances_def list_ex_iff)
  with h have "has_instances geometry_set" by simp
  with h show "geometry_input_warnings ext (dnode params) realized instances supported
      geometry_set = [info_warning (dnode params) ''Instances in input geometry are ignored'']"
    by (simp add: geometry_input_warnings_def)
qed

theorem geometry_input_checks_are_independent_witness:
  "check_input_geometry_set Debug example_externals
       (example_params mesh_and_instances [] 0 (Some [])) ''Geometry'' mesh_and_instances =
     Some (example_params mesh_and_instances [] 0
       (Some [info_warning (dnode (example_params mesh_and_instances [] 0 (Some [])))
                ''Instances in input geometry are ignored'']))"
proof -
  have types: "set (map component_type (components mesh_and_instances))
                 = {GEO_COMPONENT_TYPE_MESH, GEO_COMPONENT_TYPE_INSTANCES}"
    by (simp add: mesh_and_instances_def)
  have kind: "kind (sock_declaration (socket_of_declaration
                \<lparr> decl_name = ''Geometry'', decl_description = [],
                  kind = decl_Geometry True False [] \<rparr>)) = decl_Geometry True False []"
    by (simp add: socket_of_declaration_def)
  have log: "logger (example_params mesh_and_instances [] 0 (Some [])) = Some []"
    by (simp add: example_params_def)
  from geometry_input_checks_are_independent[OF example_input_geometry,
      where build = Debug and ext = example_externals and geometry_set = mesh_and_instances
        and realized = True and instances = False and supported = "[]" and log = "[]"]
    kind log types
  show ?thesis by (simp add: example_params_logger)
qed

text \<open>
  C8: the warning for an unsupported type is never logged for an instances component.  The
  warnings of this kind are those of the gathered types that are neither the type of
  instances nor supported, so each of them names a mesh, a point cloud, a volume or a curve;
  the check returns in every build, the unreachable case of the \<^verbatim>\<open>switch\<close> is not entered.
\<close>

theorem unsupported_type_never_for_instances:
  assumes "input_by_identifier (dnode params) identifier = Some socket"
    and "kind (sock_declaration socket) = decl_Geometry realized instances supported"
    and "logger params = Some log"
  shows "\<exists>ignored. check_input_geometry_set build ext params identifier geometry_set =
           Some (params\<lparr> logger := Some (log @ ignored
             @ map (unsupported_type_warning (dnode params))
                 (filter (\<lambda>type. type \<noteq> GEO_COMPONENT_TYPE_INSTANCES \<and> type \<notin> set supported)
                    (if supported = [] then []
                     else gather_component_types ext geometry_set True True))) \<rparr>)
     \<and> set ignored \<subseteq> {info_warning (dnode params) ''Instances in input geometry are ignored'',
                        info_warning (dnode params) ''Realized data in input geometry is ignored''}
     \<and> (\<forall>type \<in> set (filter (\<lambda>type. type \<noteq> GEO_COMPONENT_TYPE_INSTANCES \<and> type \<notin> set supported)
                    (if supported = [] then []
                     else gather_component_types ext geometry_set True True)).
           type \<in> {GEO_COMPONENT_TYPE_MESH, GEO_COMPONENT_TYPE_POINT_CLOUD,
                    GEO_COMPONENT_TYPE_VOLUME, GEO_COMPONENT_TYPE_CURVE})"
proof -
  let ?ignored = "(if realized \<and> has_instances geometry_set
      then [info_warning (dnode params) ''Instances in input geometry are ignored''] else [])
     @ (if instances \<and> has_realized_data geometry_set
        then [info_warning (dnode params) ''Realized data in input geometry is ignored'']
        else [])"
  have "type \<in> {GEO_COMPONENT_TYPE_MESH, GEO_COMPONENT_TYPE_POINT_CLOUD,
                    GEO_COMPONENT_TYPE_VOLUME, GEO_COMPONENT_TYPE_CURVE}"
    if "type \<noteq> GEO_COMPONENT_TYPE_INSTANCES" for type
    using that by (cases type) simp_all
  then show ?thesis
    using check_input_geometry_set_eq[OF assms, of build ext geometry_set]
    by (intro exI[of _ ?ignored]) auto
qed

theorem unsupported_type_never_for_instances_witness:
  "check_input_geometry_set Debug example_externals
       (example_params instances_and_curve [] 0 (Some [])) ''Target'' instances_and_curve =
     Some (example_params instances_and_curve [] 0
       (Some [unsupported_type_warning (dnode (example_params instances_and_curve [] 0 (Some [])))
                GEO_COMPONENT_TYPE_CURVE]))
   \<and> GEO_COMPONENT_TYPE_INSTANCES
       \<in> set (gather_component_types example_externals instances_and_curve True True)"
proof -
  have kind: "kind (sock_declaration (socket_of_declaration
                \<lparr> decl_name = ''Target'', decl_description = [],
                  kind = decl_Geometry False False [GEO_COMPONENT_TYPE_MESH] \<rparr>))
              = decl_Geometry False False [GEO_COMPONENT_TYPE_MESH]"
    by (simp add: socket_of_declaration_def)
  have log: "logger (example_params instances_and_curve [] 0 (Some [])) = Some []"
    by (simp add: example_params_def)
  have gathered: "gather_component_types example_externals instances_and_curve True True
                    = [GEO_COMPONENT_TYPE_INSTANCES, GEO_COMPONENT_TYPE_CURVE]"
    by (simp add: example_externals_def example_gather_def instances_and_curve_def)
  from unsupported_type_never_for_instances[OF example_input_target kind log,
      of Debug example_externals instances_and_curve]
  obtain ignored where
    result: "check_input_geometry_set Debug example_externals
       (example_params instances_and_curve [] 0 (Some [])) ''Target'' instances_and_curve =
     Some (example_params instances_and_curve [] 0 (Some (ignored
       @ [unsupported_type_warning (dnode (example_params instances_and_curve [] 0 (Some [])))
            GEO_COMPONENT_TYPE_CURVE])))"
    by (auto simp: gathered example_params_logger)
  have "check_input_geometry_set Debug example_externals
       (example_params instances_and_curve [] 0 (Some [])) ''Target'' instances_and_curve =
     Some (example_params instances_and_curve [] 0
       (Some [unsupported_type_warning (dnode (example_params instances_and_curve [] 0 (Some [])))
                GEO_COMPONENT_TYPE_CURVE]))"
    using check_input_geometry_set_eq[OF example_input_target kind log,
        of Debug example_externals instances_and_curve]
    by (simp add: gathered example_params_logger)
  with result gathered show ?thesis by simp
qed

section \<open>Resolution of attribute inputs\<close>

lemma get_input_attribute_unbound:
  assumes "find_available_socket params name = None"
  shows "get_input_attribute Release ext params name component domain type default_value =
           Some (GVArray_For_SingleValue (custom_data_type_to_cpp_type ext type)
                   (attribute_domain_size component domain)
                   (case default_value of
                      None \<Rightarrow> CPPType_default_value (custom_data_type_to_cpp_type ext type)
                    | Some x \<Rightarrow> x), params)"
    and "get_input_attribute Debug ext params name component domain type default_value = None"
  using assms by (simp_all add: get_input_attribute_def BLI_assert_def Let_def)

lemma get_input_attribute_string:
  assumes "find_available_socket params name = Some socket"
    and "sock_type socket = SOCK_STRING"
    and "get_input ext params (sock_identifier socket) CPP_string = Some (V_string attribute_name)"
    and "attribute_try_get_for_read component attribute_name domain type = None"
  shows "get_input_attribute build ext params name component domain type default_value =
           Some (GVArray_For_SingleValue (custom_data_type_to_cpp_type ext type)
                   (attribute_domain_size component domain)
                   (case default_value of
                      None \<Rightarrow> CPPType_default_value (custom_data_type_to_cpp_type ext type)
                    | Some x \<Rightarrow> x),
                 if attribute_name \<noteq> [] \<and> attribute_domain_size component domain \<noteq> 0
                 then error_message_add params Error (no_attribute_message attribute_name)
                 else params)"
  using assms by (simp add: get_input_attribute_def BLI_assert_def Let_def)

lemma get_input_attribute_string_found:
  assumes "find_available_socket params name = Some socket"
    and "sock_type socket = SOCK_STRING"
    and "get_input ext params (sock_identifier socket) CPP_string = Some (V_string attribute_name)"
    and "attribute_try_get_for_read component attribute_name domain type = Some attribute"
  shows "get_input_attribute build ext params name component domain type default_value =
           Some (attribute, params)"
  using assms by (simp add: get_input_attribute_def BLI_assert_def Let_def)

lemma get_input_attribute_int:
  assumes "find_available_socket params name = Some socket"
    and "sock_type socket = SOCK_INT"
    and "get_input ext params (sock_identifier socket) CPP_int = Some gvalue"
  shows "get_input_attribute build ext params name component domain type default_value =
           Some (GVArray_For_SingleValue (custom_data_type_to_cpp_type ext type)
                   (attribute_domain_size component domain)
                   (convert_to_uninitialized ext CPP_int (custom_data_type_to_cpp_type ext type)
                      gvalue), params)"
  using assms by (simp add: get_input_attribute_def BLI_assert_def Let_def)

lemma get_input_attribute_data_type_literal:
  assumes "find_available_socket params name = Some socket"
  shows "sock_type socket = SOCK_FLOAT \<Longrightarrow>
           get_input_attribute_data_type build ext params name component default_type
             = Some CD_PROP_FLOAT"
    and "sock_type socket = SOCK_VECTOR \<Longrightarrow>
           get_input_attribute_data_type build ext params name component default_type
             = Some CD_PROP_FLOAT3"
    and "sock_type socket = SOCK_RGBA \<Longrightarrow>
           get_input_attribute_data_type build ext params name component default_type
             = Some CD_PROP_COLOR"
    and "sock_type socket = SOCK_BOOLEAN \<Longrightarrow>
           get_input_attribute_data_type build ext params name component default_type
             = Some CD_PROP_BOOL"
    and "sock_type socket = SOCK_INT \<Longrightarrow>
           get_input_attribute_data_type build ext params name component default_type
             = (if build = Debug then None else Some default_type)"
  using assms by (simp_all add: get_input_attribute_data_type_def BLI_assert_def Let_def)

lemma example_find_attribute:
  "find_available_socket (example_params geometry_set attribute_name count log) ''Attribute'' =
     Some (socket_of_declaration
       \<lparr> decl_name = ''Attribute'', decl_description = [], kind = decl_String \<rparr>)"
  by (simp add: find_available_socket_def example_params_def node_of_declaration_def
      example_declaration_def socket_of_declaration_def is_available_def)

lemma example_find_count:
  "find_available_socket (example_params geometry_set attribute_name count log) ''Count'' =
     Some (socket_of_declaration
       \<lparr> decl_name = ''Count'', decl_description = [], kind = decl_Int 0 None None \<rparr>)"
  by (simp add: find_available_socket_def example_params_def node_of_declaration_def
      example_declaration_def socket_of_declaration_def is_available_def)

lemma example_find_other:
  "name \<notin> {''Geometry'', ''Target'', ''Attribute'', ''Count''} \<Longrightarrow>
     find_available_socket (example_params geometry_set attribute_name count log) name = None"
  by (auto simp add: find_available_socket_def example_params_def node_of_declaration_def
      example_declaration_def socket_of_declaration_def is_available_def)

lemma example_get_attribute:
  "get_input ext (example_params geometry_set attribute_name count log) ''Attribute'' CPP_string =
     Some (V_string attribute_name)"
  by (simp add: get_input_def check_input_access_def example_params_def node_of_declaration_def
      example_declaration_def socket_of_declaration_def can_get_input_def)

lemma example_get_count:
  "get_input ext (example_params geometry_set attribute_name count log) ''Count'' CPP_int =
     Some (V_int count)"
  by (simp add: get_input_def check_input_access_def example_params_def node_of_declaration_def
      example_declaration_def socket_of_declaration_def can_get_input_def)

text \<open>
  C2, as stated: the diagnostic for a missing attribute would have the severity Info.  The
  source logs it with \<^verbatim>\<open>NodeWarningType::Error\<close>: for the attribute name \<open>foo\<close> on a component
  with one element per domain and no attribute, the log receives one entry of severity Error.
\<close>

theorem missing_attribute_is_logged_as_error:
  "map_option (logger \<circ> snd)
     (get_input_attribute Release example_externals
        (example_params (GeometrySet []) ''foo'' 0 (Some [])) ''Attribute''
        (example_component 1) ATTR_DOMAIN_POINT CD_PROP_FLOAT None)
   = Some (Some [\<lparr> warning_node = dnode (example_params (GeometrySet []) ''foo'' 0 (Some [])),
                    warning_type = Error,
                    warning_message = ''No attribute with name '' @ [CHR 0x22] @ ''foo''
                                        @ [CHR 0x22] \<rparr>])
   \<and> Error \<noteq> Info \<and> Error \<noteq> Warning"
proof -
  have "get_input_attribute Release example_externals
        (example_params (GeometrySet []) ''foo'' 0 (Some [])) ''Attribute''
        (example_component 1) ATTR_DOMAIN_POINT CD_PROP_FLOAT None
      = Some (GVArray_For_SingleValue CPP_float 1 (V_float 0),
              error_message_add (example_params (GeometrySet []) ''foo'' 0 (Some [])) Error
                (no_attribute_message ''foo''))"
    using get_input_attribute_string[OF example_find_attribute,
        where ext = example_externals and attribute_name = "''foo''"
          and component = "example_component 1" and domain = ATTR_DOMAIN_POINT
          and type = CD_PROP_FLOAT and build = Release and default_value = None
          and geometry_set1 = "GeometrySet []" and attribute_name1 = "''foo''"
          and count1 = 0 and log1 = "Some []"]
    by (simp add: socket_of_declaration_def example_get_attribute example_component_def
        example_externals_def)
  then show ?thesis
    by (simp add: error_message_add_def example_params_def no_attribute_message_def TIP_def)
qed

text \<open>
  C2, amended: when a string socket names an attribute that does not exist, the diagnostic
  "No attribute with name ..." has the severity Error; it is logged only when the name is not
  empty and the size of the domain is not zero; in all cases the call returns a single-value
  broadcast of the default value.
\<close>

theorem missing_attribute_fallback:
  assumes "find_available_socket params name = Some socket"
    and "sock_type socket = SOCK_STRING"
    and "get_input ext params (sock_identifier socket) CPP_string = Some (V_string attribute_name)"
    and "attribute_try_get_for_read component attribute_name domain type = None"
    and "logger params = Some log"
  shows "get_input_attribute build ext params name component domain type default_value =
           Some (GVArray_For_SingleValue (custom_data_type_to_cpp_type ext type)
                   (attribute_domain_size component domain)
                   (case default_value of
                      None \<Rightarrow> CPPType_default_value (custom_data_type_to_cpp_type ext type)
                    | Some x \<Rightarrow> x),
                 params\<lparr> logger := Some (log @
                   (if attribute_name \<noteq> [] \<and> attribute_domain_size component domain \<noteq> 0
                    then [\<lparr> warning_node = dnode params, warning_type = Error,
                            warning_message = ''No attribute with name '' @ [CHR 0x22]
                                                @ attribute_name @ [CHR 0x22] \<rparr>]
                    else [])) \<rparr>)"
  using get_input_attribute_string[OF assms(1-4),
      where build = build and default_value = default_value] assms(5)
  by (simp add: error_message_add_def no_attribute_message_def TIP_def)

theorem missing_attribute_fallback_witness:
  "get_input_attribute Debug example_externals
     (example_params (GeometrySet []) ''foo'' 0 (Some [])) ''Attribute''
     (example_component 1) ATTR_DOMAIN_POINT CD_PROP_FLOAT (Some (V_float f_one))
   = Some (GVArray_For_SingleValue CPP_float 1 (V_float f_one),
           example_params (GeometrySet []) ''foo'' 0
             (Some [\<lparr> warning_node = dnode (example_params (GeometrySet []) ''foo'' 0 (Some [])),
                      warning_type = Error,
                      warning_message = ''No attribute with name '' @ [CHR 0x22] @ ''foo''
                                          @ [CHR 0x22] \<rparr>]))
   \<and> get_input_attribute Debug example_externals
     (example_params (GeometrySet []) ''foo'' 0 (Some [])) ''Attribute''
     (example_component 0) ATTR_DOMAIN_POINT CD_PROP_FLOAT (Some (V_float f_one))
   = Some (GVArray_For_SingleValue CPP_float 0 (V_float f_one),
           example_params (GeometrySet []) ''foo'' 0 (Some []))"
proof -
  have string: "sock_type (socket_of_declaration
      \<lparr> decl_name = ''Attribute'', decl_description = [], kind = decl_String \<rparr>) = SOCK_STRING"
    and ident: "sock_identifier (socket_of_declaration
      \<lparr> decl_name = ''Attribute'', decl_description = [], kind = decl_String \<rparr>) = ''Attribute''"
    by (simp_all add: socket_of_declaration_def)
  have got: "get_input example_externals (example_params (GeometrySet []) ''foo'' 0 (Some []))
      (sock_identifier (socket_of_declaration
         \<lparr> decl_name = ''Attribute'', decl_description = [], kind = decl_String \<rparr>)) CPP_string
      = Some (V_string ''foo'')"
    unfolding ident by (rule example_get_attribute)
  have absent: "attribute_try_get_for_read (example_component n) ''foo'' ATTR_DOMAIN_POINT
      CD_PROP_FLOAT = None" for n
    by (simp add: example_component_def)
  have log: "logger (example_params (GeometrySet []) ''foo'' 0 (Some [])) = Some []"
    by (simp add: example_params_def)
  show ?thesis
    using missing_attribute_fallback[OF example_find_attribute string got absent log,
        where build = Debug and n1 = 1 and default_value = "Some (V_float f_one)"]
      missing_attribute_fallback[OF example_find_attribute string got absent log,
        where build = Debug and n1 = 0 and default_value = "Some (V_float f_one)"]
    by (simp add: example_component_def example_externals_def example_params_def)
qed

text \<open>
  C5: with a string socket bound to the empty string, on a component whose domain is not
  empty (and where the empty string names no attribute), the call returns a single-value
  broadcast of the default value over the domain and leaves the parameters, hence the log,
  as they were.
\<close>

theorem empty_attribute_name_is_silent:
  assumes "find_available_socket params name = Some socket"
    and "sock_type socket = SOCK_STRING"
    and "get_input ext params (sock_identifier socket) CPP_string = Some (V_string [])"
    and "attribute_try_get_for_read component [] domain type = None"
    and "attribute_domain_size component domain \<noteq> 0"
  shows "get_input_attribute build ext params name component domain type default_value =
           Some (GVArray_For_SingleValue (custom_data_type_to_cpp_type ext type)
                   (attribute_domain_size component domain)
                   (case default_value of
                      None \<Rightarrow> CPPType_default_value (custom_data_type_to_cpp_type ext type)
                    | Some x \<Rightarrow> x),
                 params)"
  using get_input_attribute_string[OF assms(1-4),
      where build = build and default_value = default_value] assms(5)
  by simp

theorem empty_attribute_name_is_silent_witness:
  "get_input_attribute Debug example_externals
     (example_params (GeometrySet []) [] 0 (Some [])) ''Attribute''
     (example_component 8) ATTR_DOMAIN_POINT CD_PROP_FLOAT (Some (V_float f_one))
   = Some (GVArray_For_SingleValue CPP_float 8 (V_float f_one),
           example_params (GeometrySet []) [] 0 (Some []))"
proof -
  have string: "sock_type (socket_of_declaration
      \<lparr> decl_name = ''Attribute'', decl_description = [], kind = decl_String \<rparr>) = SOCK_STRING"
    and ident: "sock_identifier (socket_of_declaration
      \<lparr> decl_name = ''Attribute'', decl_description = [], kind = decl_String \<rparr>) = ''Attribute''"
    by (simp_all add: socket_of_declaration_def)
  have got: "get_input example_externals (example_params (GeometrySet []) [] 0 (Some []))
      (sock_identifier (socket_of_declaration
         \<lparr> decl_name = ''Attribute'', decl_description = [], kind = decl_String \<rparr>)) CPP_string
      = Some (V_string [])"
    unfolding ident by (rule example_get_attribute)
  have absent: "attribute_try_get_for_read (example_component 8) [] ATTR_DOMAIN_POINT
      CD_PROP_FLOAT = None"
    and size: "attribute_domain_size (example_component 8) ATTR_DOMAIN_POINT \<noteq> 0"
    by (simp_all add: example_component_def)
  show ?thesis
    using empty_attribute_name_is_silent[OF example_find_attribute string got absent size,
        where build = Debug and default_value = "Some (V_float f_one)"]
    by (simp add: example_component_def example_externals_def)
qed

text \<open>
  C6, as stated: on an unbound socket the call would return a broadcast view.  The source
  first asserts that a socket is available for the name; in a debug build the call halts
  there.
\<close>

theorem unbound_socket_halts_debug_build:
  "find_available_socket (example_params (GeometrySet []) [] 0 None) ''Value'' = None
   \<and> get_input_attribute Debug example_externals (example_params (GeometrySet []) [] 0 None)
       ''Value'' (example_component 3) ATTR_DOMAIN_POINT CD_PROP_FLOAT None = None"
proof -
  have "find_available_socket (example_params (GeometrySet []) [] 0 None) ''Value'' = None"
    by (rule example_find_other) simp
  then show ?thesis by (simp add: get_input_attribute_unbound(2))
qed

text \<open>
  C6, amended: in a release build, where the assertion is compiled out, the call on an
  unbound socket returns a single-value broadcast view whose size is the size \<open>N\<close> of the
  domain and in which every index from 0 to \<open>N - 1\<close> yields the same value: the given
  default value, or the default value of the requested type when none is given, which is
  the zero value of that type (the number zero, the vector or the color of zeros, or
  \<^verbatim>\<open>false\<close>).  In a debug build the call halts at the assertion.
\<close>

theorem unbound_socket_broadcast:
  assumes "find_available_socket params name = None"
  shows "\<exists>view. get_input_attribute Release ext params name component domain type default_value
                 = Some (view, params)
     \<and> view = GVArray_For_SingleValue (custom_data_type_to_cpp_type ext type)
                (attribute_domain_size component domain)
                (case default_value of
                   None \<Rightarrow> CPPType_default_value (custom_data_type_to_cpp_type ext type)
                 | Some x \<Rightarrow> x)
     \<and> gvarray_size view = attribute_domain_size component domain
     \<and> (\<forall>index. 0 \<le> index \<and> index < attribute_domain_size component domain \<longrightarrow>
           gvarray_get view index =
             Some (case default_value of
                     None \<Rightarrow> CPPType_default_value (custom_data_type_to_cpp_type ext type)
                   | Some x \<Rightarrow> x))
     \<and> CPPType_default_value (custom_data_type_to_cpp_type ext type)
         = (case custom_data_type_to_cpp_type ext type of
              CPP_float \<Rightarrow> V_float 0
            | CPP_int \<Rightarrow> V_int 0
            | CPP_float3 \<Rightarrow> V_float3 0 0 0
            | CPP_ColorGeometry4f \<Rightarrow> V_color 0 0 0 0
            | CPP_bool \<Rightarrow> V_bool False
            | CPP_string \<Rightarrow> V_string []
            | CPP_GeometrySet \<Rightarrow> V_geometry (GeometrySet []))
     \<and> get_input_attribute Debug ext params name component domain type default_value = None"
proof -
  have zero: "CPPType_default_value t
         = (case t of
              CPP_float \<Rightarrow> V_float 0
            | CPP_int \<Rightarrow> V_int 0
            | CPP_float3 \<Rightarrow> V_float3 0 0 0
            | CPP_ColorGeometry4f \<Rightarrow> V_color 0 0 0 0
            | CPP_bool \<Rightarrow> V_bool False
            | CPP_string \<Rightarrow> V_string []
            | CPP_GeometrySet \<Rightarrow> V_geometry (GeometrySet []))" for t
    by (cases t) simp_all
  show ?thesis
    using get_input_attribute_unbound[OF assms, where ext = ext and component = component
        and domain = domain and type = type and default_value = default_value]
      zero[of "custom_data_type_to_cpp_type ext type"]
    by simp
qed

theorem unbound_socket_broadcast_witness:
  "get_input_attribute Release example_externals (example_params (GeometrySet []) [] 0 None)
       ''Value'' (example_component 3) ATTR_DOMAIN_POINT CD_PROP_FLOAT None
     = Some (GVArray_For_SingleValue CPP_float 3 (V_float 0),
             example_params (GeometrySet []) [] 0 None)
   \<and> map (gvarray_get (GVArray_For_SingleValue CPP_float 3 (V_float 0))) [0, 1, 2]
       = [Some (V_float 0), Some (V_float 0), Some (V_float 0)]"
proof -
  have "find_available_socket (example_params (GeometrySet []) [] 0 None) ''Value'' = None"
    by (rule example_find_other) simp
  from unbound_socket_broadcast[OF this, where ext = example_externals
      and component = "example_component 3" and domain = ATTR_DOMAIN_POINT
      and type = CD_PROP_FLOAT and default_value = None]
  show ?thesis by (simp add: example_component_def example_externals_def)
qed

text \<open>
  C9: \<open>get_input_attribute_data_type\<close> answers \<open>CD_PROP_FLOAT\<close> for a float socket,
  \<open>CD_PROP_FLOAT3\<close> for a vector socket, \<open>CD_PROP_COLOR\<close> for a colour socket and
  \<open>CD_PROP_BOOL\<close> for a boolean socket.  It has no case for an integer socket: there it
  reaches the final assertion, which halts a debug build, and a release build returns
  \<open>default_type\<close>.  \<open>get_input_attribute\<close> accepts the same integer socket and returns the
  broadcast of its value converted to the requested type.
\<close>

theorem data_type_of_literal_sockets:
  assumes "find_available_socket params name = Some socket"
  shows "(sock_type socket = SOCK_FLOAT \<longrightarrow>
            get_input_attribute_data_type build ext params name component default_type
              = Some CD_PROP_FLOAT)
     \<and> (sock_type socket = SOCK_VECTOR \<longrightarrow>
            get_input_attribute_data_type build ext params name component default_type
              = Some CD_PROP_FLOAT3)
     \<and> (sock_type socket = SOCK_RGBA \<longrightarrow>
            get_input_attribute_data_type build ext params name component default_type
              = Some CD_PROP_COLOR)
     \<and> (sock_type socket = SOCK_BOOLEAN \<longrightarrow>
            get_input_attribute_data_type build ext params name component default_type
              = Some CD_PROP_BOOL)
     \<and> (sock_type socket = SOCK_INT \<longrightarrow>
            get_input_attribute_data_type Debug ext params name component default_type = None
          \<and> get_input_attribute_data_type Release ext params name component default_type
              = Some default_type
          \<and> (\<forall>gvalue. get_input ext params (sock_identifier socket) CPP_int = Some gvalue \<longrightarrow>
                get_input_attribute build ext params name component domain type default_value
                  = Some (GVArray_For_SingleValue (custom_data_type_to_cpp_type ext type)
                            (attribute_domain_size component domain)
                            (convert_to_uninitialized ext CPP_int
                               (custom_data_type_to_cpp_type ext type) gvalue), params)))"
  using get_input_attribute_data_type_literal[OF assms]
    get_input_attribute_int[OF assms]
  by simp

theorem data_type_of_literal_sockets_witness:
  "get_input_attribute_data_type Debug example_externals
       (example_params (GeometrySet []) [] 7 None) ''Count'' (example_component 3) CD_PROP_COLOR
     = None
   \<and> get_input_attribute_data_type Release example_externals
       (example_params (GeometrySet []) [] 7 None) ''Count'' (example_component 3) CD_PROP_COLOR
     = Some CD_PROP_COLOR
   \<and> get_input_attribute Debug example_externals
       (example_params (GeometrySet []) [] 7 None) ''Count'' (example_component 3)
       ATTR_DOMAIN_POINT CD_PROP_INT32 None
     = Some (GVArray_For_SingleValue CPP_int 3 (V_int 7),
             example_params (GeometrySet []) [] 7 None)"
proof -
  have int: "sock_type (socket_of_declaration
      \<lparr> decl_name = ''Count'', decl_description = [], kind = decl_Int 0 None None \<rparr>) = SOCK_INT"
    and ident: "sock_identifier (socket_of_declaration
      \<lparr> decl_name = ''Count'', decl_description = [], kind = decl_Int 0 None None \<rparr>) = ''Count''"
    by (simp_all add: socket_of_declaration_def)
  show ?thesis
    using data_type_of_literal_sockets[OF example_find_count,
        where build = Debug and ext = example_externals and component = "example_component 3"
          and default_type = CD_PROP_COLOR and domain = ATTR_DOMAIN_POINT
          and type = CD_PROP_INT32 and default_value = None
          and geometry_set1 = "GeometrySet []" and attribute_name1 = "[]" and count1 = 7
          and log1 = None]
    by (simp add: int ident example_get_count example_component_def example_externals_def
        example_convert_def)
qed

section \<open>Reading an input twice\<close>









end
